theory Spec2Isabelle
  imports Complex_Main
begin

chapter \<open>Intelligence Report Generator: record normalizer, source registry,
  analysis engine and report compiler\<close>

text \<open>
  A shallow embedding of the TypeScript classes \<^verbatim>\<open>DataSourceManager\<close>,
  \<^verbatim>\<open>AnalysisEngine\<close> and \<^verbatim>\<open>ReportGenerator\<close>. Every method becomes a
  function that takes the object's state and returns the result together with the new
  state; a thrown \<^verbatim>\<open>Error\<close> becomes the left injection of a sum type; the
  notifications sent through \<^verbatim>\<open>EventEmitter.emit\<close> are appended to a log held in
  the state. What the host supplies (the clock, \<^verbatim>\<open>Math.random\<close>, the JSON and
  XML parsers, number formatting) is a parameter of the model.
\<close>

section \<open>Strings\<close>

text \<open>
  A JavaScript string is modelled by \<^typ>\<open>string\<close>: the characters are the code
  units below \<^verbatim>\<open>0x100\<close>. \<^verbatim>\<open>String.prototype.trim\<close> removes white space and
  line terminators from both ends; in this range they are TAB, LF, VT, FF, CR, SPACE
  and NBSP.
\<close>

definition isWhiteSpace :: "char \<Rightarrow> bool" where
  "isWhiteSpace c = (c \<in> {CHR 0x09, CHR 0x0A, CHR 0x0B, CHR 0x0C, CHR 0x0D, CHR 0x20, CHR 0xA0})"

definition trim :: "string \<Rightarrow> string" where
  "trim s = rev (dropWhile isWhiteSpace (rev (dropWhile isWhiteSpace s)))"

text \<open>
  \<^verbatim>\<open>s.split(c)\<close> for a one-character separator: the pieces between the
  separators, so the empty string splits into one empty piece.
\<close>

fun split :: "char \<Rightarrow> string \<Rightarrow> string list" where
  "split c [] = [[]]"
| "split c (x # xs) =
     (if x = c then [] # split c xs
      else (case split c xs of [] \<Rightarrow> [[x]] | w # ws \<Rightarrow> (x # w) # ws))"

definition toLowerChar :: "char \<Rightarrow> char" where
  "toLowerChar c =
     (let n = of_char c :: nat in
      if (65 \<le> n \<and> n \<le> 90) \<or> (192 \<le> n \<and> n \<le> 222 \<and> n \<noteq> 215)
      then char_of (n + 32) else c)"

definition toLowerCase :: "string \<Rightarrow> string" where
  "toLowerCase s = map toLowerChar s"

text \<open>\<^verbatim>\<open>s.includes(k)\<close>: \<open>k\<close> occurs in \<open>s\<close> as a contiguous piece.\<close>

fun includes_str :: "string \<Rightarrow> string \<Rightarrow> bool" where
  "includes_str [] k = (k = [])"
| "includes_str (x # xs) k = (take (length k) (x # xs) = k \<or> includes_str xs k)"

section \<open>Values of type \<^verbatim>\<open>any\<close>\<close>

text \<open>
  Records, evidence and parsed JSON have the TypeScript type \<^verbatim>\<open>any\<close>. The
  values that reach the program are those of JSON and the objects the program builds
  itself. A finite number is a rational; arithmetic on numbers is not modelled. A plain
  object is the map from its own property names to their values.
\<close>

datatype jsval =
    Undefined
  | Null
  | Bool bool
  | Num rat
  | Str string
  | Arr "jsval list"
  | Obj "string \<Rightarrow> jsval option"

text \<open>The errors the program raises; \<open>TypeError\<close> is the engine's own, on reading a
  property of \<^verbatim>\<open>null\<close> or \<^verbatim>\<open>undefined\<close> or calling a missing method.\<close>

datatype error =
    UnsupportedFormat string
  | InvalidJSON
  | InsufficientRows
  | InvalidXML
  | SourceNotFound string
  | UnknownAnalysisType string
  | UnknownReportType string
  | UnknownReportFormat string
  | TypeError

fun truthy :: "jsval \<Rightarrow> bool" where
  "truthy Undefined = False"
| "truthy Null = False"
| "truthy (Bool b) = b"
| "truthy (Num n) = (n \<noteq> 0)"
| "truthy (Str s) = (s \<noteq> [])"
| "truthy (Arr xs) = True"
| "truthy (Obj m) = True"

section \<open>Findings\<close>

datatype severity = Low | Medium | High | Critical

datatype finding_type = Threat | Pattern | Anomaly | Correlation

fun severity_str :: "severity \<Rightarrow> string" where
  "severity_str Low = ''low''"
| "severity_str Medium = ''medium''"
| "severity_str High = ''high''"
| "severity_str Critical = ''critical''"

record AnalysisResult =
  ar_id :: string
  ar_type :: finding_type
  ar_title :: string
  ar_description :: string
  severity :: severity
  confidence :: rat
  ar_timestamp :: nat
  evidence :: "jsval list"
  recommendations :: "string list"

section \<open>Report compiler: the overall threat level\<close>

definition calculateOverallThreatLevel :: "AnalysisResult list \<Rightarrow> string" where
  "calculateOverallThreatLevel results =
     (let criticalCount = length (filter (\<lambda>r. severity r = Critical) results);
          highCount = length (filter (\<lambda>r. severity r = High) results);
          mediumCount = length (filter (\<lambda>r. severity r = Medium) results)
      in if criticalCount > 0 then ''critical''
         else if highCount > 2 then ''high''
         else if highCount > 0 \<or> mediumCount > 3 then ''medium''
         else ''low'')"

section \<open>The host environment\<close>

text \<open>
  What the program reads from its host, as parameters: the clock (\<^verbatim>\<open>new Date()\<close>,
  \<^verbatim>\<open>Date.now()\<close>; one call reads one value), the successive results of
  \<^verbatim>\<open>Math.random()\<close> (numbered from 0 within a call), the printing of a number
  in a template literal, the formatting of instants and of percentages, and the host's
  JSON and XML parsers.
\<close>

record env =
  now :: nat
  math_random :: "nat \<Rightarrow> rat"
  numToStr :: "rat \<Rightarrow> string"
  toISOString :: "int \<Rightarrow> string"
  toLocaleString :: "nat \<Rightarrow> string"
  toFixed1 :: "rat \<Rightarrow> string"
  JSON_parse :: "string \<Rightarrow> jsval option"
  XML_items :: "string \<Rightarrow> (string \<times> string) list list option"

text \<open>Decimal numerals, as a template literal prints a natural number.\<close>

function show_nat :: "nat \<Rightarrow> string" where
  "show_nat n =
     (if n < 10 then [char_of (48 + n)]
      else show_nat (n div 10) @ [char_of (48 + n mod 10)])"
  by pat_completeness auto
termination
  by (relation "measure (\<lambda>n. n)") auto

section \<open>Analysis engine\<close>

record AnalysisConfig =
  ac_type :: string
  timeRange :: string
  severityFilter :: "string option"

text \<open>The notifications of the engine. The elapsed time that
  \<^verbatim>\<open>analysisCompleted\<close> carries as its second argument is left out.\<close>

datatype engine_event =
    EngineInitialized
  | AnalysisStarted
  | AnalysisCompleted "AnalysisResult list"
  | AnalysisError error

record engine =
  results :: "AnalysisResult list"
  eng_isInitialized :: bool
  threatCount :: nat
  eng_emitted :: "engine_event list"

text \<open>
  \<^verbatim>\<open>item.k\<close> for the property names the program reads (none of them is defined
  on a built-in prototype): the own property, or \<^verbatim>\<open>undefined\<close>. Reading a
  property of \<^verbatim>\<open>null\<close> or \<^verbatim>\<open>undefined\<close> throws; \<open>nullish\<close> is the test,
  made where a value is read first. The severity, the description and the
  recommendations are computed only for a record that has been classified, which is
  neither.
\<close>

definition nullish :: "jsval \<Rightarrow> bool" where
  "nullish v = (v = Undefined \<or> v = Null)"

fun field :: "jsval \<Rightarrow> string \<Rightarrow> jsval" where
  "field (Obj m) k = (case m k of None \<Rightarrow> Undefined | Some v \<Rightarrow> v)"
| "field v k = Undefined"

definition isKnownMaliciousIP :: "jsval \<Rightarrow> bool" where
  "isKnownMaliciousIP ip =
     (ip \<in> set [Str ''203.0.113.45'', Str ''198.51.100.23'', Str ''192.0.2.100''])"

text \<open>\<^verbatim>\<open>content.toLowerCase()\<close> is a method of strings only: on any other value
  the call throws.\<close>

fun containsSuspiciousKeywords :: "jsval \<Rightarrow> error + bool" where
  "containsSuspiciousKeywords (Str content) =
     Inr (list_ex (\<lambda>keyword. includes_str (toLowerCase content) keyword)
            [''suspicious'', ''malicious'', ''attack'', ''breach'', ''vulnerability''])"
| "containsSuspiciousKeywords v = Inl TypeError"

definition isUnusualPort :: "jsval \<Rightarrow> bool" where
  "isUnusualPort port =
     (port \<notin> set (map Num [80, 443, 22, 21, 25, 53, 110, 143, 993, 995]))"

text \<open>
  The classification of one record. \<open>p\<close> is the number of \<^verbatim>\<open>Math.random()\<close>
  results used so far; the result carries the number used afterwards: the last rule
  draws one, the others none.
\<close>

definition isSuspiciousActivity :: "env \<Rightarrow> nat \<Rightarrow> jsval \<Rightarrow> error + (bool \<times> nat)" where
  "isSuspiciousActivity e p item =
     (if nullish item then Inl TypeError
      else if truthy (field item ''sourceIP'') \<and> isKnownMaliciousIP (field item ''sourceIP'')
      then Inr (True, p)
      else case (if truthy (field item ''content'')
                 then containsSuspiciousKeywords (field item ''content'') else Inr False) of
        Inl err \<Rightarrow> Inl err
      | Inr True \<Rightarrow> Inr (True, p)
      | Inr False \<Rightarrow>
          if truthy (field item ''port'') \<and> isUnusualPort (field item ''port'') then Inr (True, p)
          else if field item ''type'' = Str ''malware'' then Inr (True, p)
          else Inr (math_random e p < 1 / 10, Suc p))"

definition calculateThreatSeverity :: "jsval \<Rightarrow> severity" where
  "calculateThreatSeverity item =
     (if field item ''type'' = Str ''malware'' \<or> field item ''severity'' = Str ''high''
      then Critical
      else if field item ''status'' = Str ''blocked'' \<or> field item ''severity'' = Str ''medium''
      then High
      else if truthy (field item ''port'') \<and> isUnusualPort (field item ''port'') then Medium
      else Low)"

text \<open>\<open>a || b\<close> on values.\<close>

definition or_else :: "jsval \<Rightarrow> jsval \<Rightarrow> jsval" where
  "or_else a b = (if truthy a then a else b)"

text \<open>
  The conversion of a value to a string in a template literal. A primitive value always
  converts; a number is printed by the host. An array joins the strings of its
  elements with commas, \<^verbatim>\<open>null\<close> and \<^verbatim>\<open>undefined\<close> elements printing as
  nothing. An object without an own property \<^verbatim>\<open>toString\<close> prints as
  \<^verbatim>\<open>[object Object]\<close>; with one, the conversion throws: the values here are
  those of JSON, none is a function, so neither the own \<^verbatim>\<open>toString\<close> nor any
  \<^verbatim>\<open>valueOf\<close> yields a primitive.
\<close>

fun toStr :: "env \<Rightarrow> jsval \<Rightarrow> error + string"
  and joinStr :: "env \<Rightarrow> jsval list \<Rightarrow> error + string" where
  "toStr e Undefined = Inr ''undefined''"
| "toStr e Null = Inr ''null''"
| "toStr e (Bool b) = Inr (if b then ''true'' else ''false'')"
| "toStr e (Num n) = Inr (numToStr e n)"
| "toStr e (Str s) = Inr s"
| "toStr e (Arr xs) = joinStr e xs"
| "toStr e (Obj m) = (if m ''toString'' = None then Inr ''[object Object]'' else Inl TypeError)"
| "joinStr e [] = Inr []"
| "joinStr e (x # xs) =
     (case (if x = Undefined \<or> x = Null then Inr [] else toStr e x) of
        Inl err \<Rightarrow> Inl err
      | Inr s \<Rightarrow>
          (if xs = [] then Inr s
           else (case joinStr e xs of Inl err \<Rightarrow> Inl err | Inr t \<Rightarrow> Inr (s @ '','' @ t))))"

definition generateThreatDescription :: "env \<Rightarrow> jsval \<Rightarrow> error + string" where
  "generateThreatDescription e item =
     (if truthy (field item ''sourceIP'')
      then (case toStr e (field item ''sourceIP'') of
              Inl err \<Rightarrow> Inl err
            | Inr ip \<Rightarrow>
                (case toStr e (or_else (field item ''destIP'') (Str ''internal systems'')) of
                   Inl err \<Rightarrow> Inl err
                 | Inr dest \<Rightarrow>
                     Inr (''Suspicious network activity from '' @ ip @ '' targeting '' @ dest)))
      else if truthy (field item ''content'')
      then (case field item ''content'' of
              Str c \<Rightarrow> Inr (''Suspicious content detected: '' @ take 100 c @ ''...'')
            | _ \<Rightarrow> Inl TypeError)
      else if field item ''type'' = Str ''malware''
      then (case toStr e (or_else (field item ''name'') (Str ''Unknown threat'')) of
              Inl err \<Rightarrow> Inl err
            | Inr name \<Rightarrow> Inr (''Malware detected: '' @ name))
      else Inr ''Suspicious activity detected in data source'')"

definition generateThreatRecommendations :: "env \<Rightarrow> jsval \<Rightarrow> error + string list" where
  "generateThreatRecommendations e item =
     (case (if truthy (field item ''sourceIP'')
            then (case toStr e (field item ''sourceIP'') of
                    Inl err \<Rightarrow> Inl err
                  | Inr ip \<Rightarrow> Inr [''Block IP address '' @ ip,
                                     ''Monitor network traffic for similar patterns''])
            else Inr []) of
        Inl err \<Rightarrow> Inl err
      | Inr first \<Rightarrow>
          Inr (first
               @ (if field item ''type'' = Str ''malware''
                  then [''Run full system scan'', ''Update antivirus definitions'',
                        ''Isolate affected systems'']
                  else [])
               @ [''Investigate further'', ''Document incident'']))"

definition generateSampleThreats :: "env \<Rightarrow> AnalysisResult list" where
  "generateSampleThreats e =
     [\<lparr>ar_id = ''threat-sample-1'', ar_type = Threat, ar_title = ''Malicious IP Activity'',
       ar_description = ''Multiple connection attempts from known malicious IP address'',
       severity = High, confidence = 92 / 100, ar_timestamp = now e,
       evidence = [Obj [''sourceIP'' \<mapsto> Str ''203.0.113.45'', ''attempts'' \<mapsto> Num 15]],
       recommendations = [''Block IP address'', ''Monitor for similar activity'']\<rparr>,
      \<lparr>ar_id = ''threat-sample-2'', ar_type = Threat, ar_title = ''Suspicious File Hash'',
       ar_description = ''File with known malicious hash detected'',
       severity = Critical, confidence = 98 / 100, ar_timestamp = now e,
       evidence = [Obj [''hash'' \<mapsto> Str ''abc123def456'', ''filename'' \<mapsto> Str ''suspicious.exe'']],
       recommendations = [''Quarantine file'', ''Run full system scan'']\<rparr>,
      \<lparr>ar_id = ''threat-sample-3'', ar_type = Threat, ar_title = ''Unusual Port Activity'',
       ar_description = ''Unexpected traffic on non-standard port'',
       severity = Medium, confidence = 75 / 100, ar_timestamp = now e,
       evidence = [Obj [''port'' \<mapsto> Num 8888, ''protocol'' \<mapsto> Str ''TCP'']],
       recommendations = [''Investigate port usage'', ''Review firewall rules'']\<rparr>]"

text \<open>
  The body of the \<^verbatim>\<open>forEach\<close> of \<^verbatim>\<open>runThreatDetection\<close>, from the record at
  position \<open>index\<close> on: a record classified suspicious yields a finding, whose
  confidence takes one more random result (it is written here in exact arithmetic; the
  code rounds it to a double). A throw ends the loop.
\<close>

fun detectThreats :: "env \<Rightarrow> nat \<Rightarrow> nat \<Rightarrow> jsval list \<Rightarrow> error + AnalysisResult list" where
  "detectThreats e index p [] = Inr []"
| "detectThreats e index p (item # items) =
     (case isSuspiciousActivity e p item of
        Inl err \<Rightarrow> Inl err
      | Inr (False, p') \<Rightarrow> detectThreats e (Suc index) p' items
      | Inr (True, p') \<Rightarrow>
          (case generateThreatDescription e item of
             Inl err \<Rightarrow> Inl err
           | Inr description \<Rightarrow>
               (case generateThreatRecommendations e item of
                  Inl err \<Rightarrow> Inl err
                | Inr recs \<Rightarrow>
                    (case detectThreats e (Suc index) (Suc p') items of
                       Inl err \<Rightarrow> Inl err
                     | Inr rest \<Rightarrow>
                         Inr (\<lparr>ar_id = ''threat-'' @ show_nat index, ar_type = Threat,
                               ar_title = ''Suspicious Activity Detected'',
                               ar_description = description,
                               severity = calculateThreatSeverity item,
                               confidence = 7 / 10 + math_random e p' * (3 / 10),
                               ar_timestamp = now e, evidence = [item],
                               recommendations = recs\<rparr> # rest)))))"

definition runThreatDetection :: "env \<Rightarrow> nat \<Rightarrow> jsval list \<Rightarrow> error + AnalysisResult list" where
  "runThreatDetection e p dat =
     (case detectThreats e 0 p dat of
        Inl err \<Rightarrow> Inl err
      | Inr rs \<Rightarrow> Inr (if length rs = 0 then rs @ generateSampleThreats e else rs))"

text \<open>\<^verbatim>\<open>data.slice(a, b)\<close> for \<open>0 \<le> a \<le> b\<close>.\<close>

definition slice :: "nat \<Rightarrow> nat \<Rightarrow> 'a list \<Rightarrow> 'a list" where
  "slice a b xs = take (b - a) (drop a xs)"

definition runPatternAnalysis :: "env \<Rightarrow> jsval list \<Rightarrow> AnalysisResult list" where
  "runPatternAnalysis e dat =
     [\<lparr>ar_id = ''pattern-'' @ show_nat 0, ar_type = Pattern,
       ar_title = ''Pattern Identified: '' @ ''Repeated Access Attempts'',
       ar_description = ''Multiple failed login attempts from same source'',
       severity = Medium, confidence = 85 / 100, ar_timestamp = now e,
       evidence = slice 0 3 dat,
       recommendations = [''Implement rate limiting'', ''Monitor source IP'']\<rparr>,
      \<lparr>ar_id = ''pattern-'' @ show_nat 1, ar_type = Pattern,
       ar_title = ''Pattern Identified: '' @ ''Time-based Pattern'',
       ar_description = ''Unusual activity during off-hours'',
       severity = Low, confidence = 72 / 100, ar_timestamp = now e,
       evidence = slice 1 4 dat,
       recommendations = [''Review access policies'', ''Implement time-based restrictions'']\<rparr>]"

definition runAnomalyDetection :: "env \<Rightarrow> jsval list \<Rightarrow> AnalysisResult list" where
  "runAnomalyDetection e dat =
     [\<lparr>ar_id = ''anomaly-'' @ show_nat 0, ar_type = Anomaly,
       ar_title = ''Anomaly Detected: '' @ ''Traffic Volume Spike'',
       ar_description = ''Unusual increase in network traffic volume'',
       severity = Medium, confidence = 78 / 100, ar_timestamp = now e,
       evidence = slice 0 2 dat,
       recommendations = [''Investigate traffic source'', ''Check for DDoS attack'']\<rparr>,
      \<lparr>ar_id = ''anomaly-'' @ show_nat 1, ar_type = Anomaly,
       ar_title = ''Anomaly Detected: '' @ ''Unusual User Behavior'',
       ar_description = ''User accessing resources outside normal pattern'',
       severity = Low, confidence = 65 / 100, ar_timestamp = now e,
       evidence = slice 2 5 dat,
       recommendations = [''Verify user identity'', ''Review access logs'']\<rparr>]"

definition runCorrelationAnalysis :: "env \<Rightarrow> jsval list \<Rightarrow> AnalysisResult list" where
  "runCorrelationAnalysis e dat =
     [\<lparr>ar_id = ''correlation-'' @ show_nat 0, ar_type = Correlation,
       ar_title = ''Correlation Found: '' @ ''Multi-source Threat'',
       ar_description = ''Related threats detected across multiple data sources'',
       severity = High, confidence = 88 / 100, ar_timestamp = now e,
       evidence = slice 0 4 dat,
       recommendations = [''Coordinate response'', ''Check all related systems'']\<rparr>]"

text \<open>The dispatch of \<^verbatim>\<open>runAnalysis\<close> on \<^verbatim>\<open>config.type\<close>. The artificial
  delay has taken random result 0, so the strategy starts at 1.\<close>

definition runStrategy :: "env \<Rightarrow> jsval list \<Rightarrow> AnalysisConfig \<Rightarrow> error + AnalysisResult list" where
  "runStrategy e dat config =
     (if ac_type config = ''threat-detection'' then runThreatDetection e 1 dat
      else if ac_type config = ''pattern-analysis'' then Inr (runPatternAnalysis e dat)
      else if ac_type config = ''anomaly-detection'' then Inr (runAnomalyDetection e dat)
      else if ac_type config = ''correlation-analysis'' then Inr (runCorrelationAnalysis e dat)
      else Inl (UnknownAnalysisType (ac_type config)))"

text \<open>The severity filter: a filter that is absent or the empty string is falsy and,
  like \<^verbatim>\<open>'all'\<close>, keeps every finding.\<close>

definition filterBySeverity :: "string option \<Rightarrow> AnalysisResult list \<Rightarrow> AnalysisResult list" where
  "filterBySeverity sf rs =
     (case sf of
        None \<Rightarrow> rs
      | Some f \<Rightarrow>
          if f \<noteq> [] \<and> f \<noteq> ''all''
          then filter (\<lambda>r. severity_str (severity r) = f) rs
          else rs)"

definition runAnalysis ::
  "env \<Rightarrow> jsval list \<Rightarrow> AnalysisConfig \<Rightarrow> engine \<Rightarrow> (error + AnalysisResult list) \<times> engine" where
  "runAnalysis e dat config st =
     (let st1 = st\<lparr>eng_emitted := eng_emitted st @ [AnalysisStarted]\<rparr> in
      case runStrategy e dat config of
        Inl err \<Rightarrow> (Inl err, st1\<lparr>eng_emitted := eng_emitted st1 @ [AnalysisError err]\<rparr>)
      | Inr rs \<Rightarrow>
          (let filteredResults = filterBySeverity (severityFilter config) rs in
           (Inr filteredResults,
            st1\<lparr>threatCount :=
                   length (filter (\<lambda>r. ar_type r = Threat \<or> severity r = Critical
                                        \<or> severity r = High) filteredResults),
                 results := filteredResults,
                 eng_emitted := eng_emitted st1 @ [AnalysisCompleted filteredResults]\<rparr>)))"

section \<open>Record normalizer\<close>

record File =
  file_name :: string
  file_text :: string

text \<open>
  The assignment \<^verbatim>\<open>row[k] = v\<close> on an object created by \<^verbatim>\<open>{}\<close>, for a
  string \<open>v\<close>: it creates or overwrites the own property \<open>k\<close>. The one exception
  is the name \<^verbatim>\<open>__proto__\<close>, an accessor property inherited from
  \<^verbatim>\<open>Object.prototype\<close>: its setter ignores a value that is neither an object
  nor \<^verbatim>\<open>null\<close>, so no own property is created.
\<close>

definition set_prop :: "(string \<Rightarrow> jsval option) \<Rightarrow> string \<Rightarrow> string \<Rightarrow> (string \<Rightarrow> jsval option)" where
  "set_prop obj k v = (if k = ''__proto__'' then obj else obj(k \<mapsto> Str v))"

definition parseJSON :: "env \<Rightarrow> string \<Rightarrow> error + jsval list" where
  "parseJSON e txt =
     (case JSON_parse e txt of
        None \<Rightarrow> Inl InvalidJSON
      | Some (Arr xs) \<Rightarrow> Inr xs
      | Some parsed \<Rightarrow> Inr [parsed])"

text \<open>\<^verbatim>\<open>text.split('\n').filter(line => line.trim())\<close>: the empty string is the
  only falsy string.\<close>

definition nonblank_lines :: "string \<Rightarrow> string list" where
  "nonblank_lines txt = filter (\<lambda>line. trim line \<noteq> []) (split (CHR 0x0A) txt)"

text \<open>\<^verbatim>\<open>values[index] || ''\<close>: an index out of range reads \<^verbatim>\<open>undefined\<close>.\<close>

definition value_at :: "string list \<Rightarrow> nat \<Rightarrow> string" where
  "value_at vals index = (if index < length vals then vals ! index else [])"

text \<open>The \<^verbatim>\<open>headers.forEach\<close> that fills one row, header by header.\<close>

definition buildRow :: "string list \<Rightarrow> string list \<Rightarrow> (string \<Rightarrow> jsval option)" where
  "buildRow headers vals =
     fold (\<lambda>(index, header) row. set_prop row header (value_at vals index))
          (enumerate 0 headers) Map.empty"

definition parseCSV :: "string \<Rightarrow> error + jsval list" where
  "parseCSV txt =
     (let lines = nonblank_lines txt in
      if length lines < 2 then Inl InsufficientRows
      else (let headers = map trim (split CHR '','' (lines ! 0)) in
            Inr (map (\<lambda>line. Obj (buildRow headers (map trim (split CHR '','' line))))
                     (drop 1 lines))))"

text \<open>
  The host's \<^verbatim>\<open>DOMParser\<close> and \<^verbatim>\<open>querySelectorAll('item, record, entry')\<close>
  are the parameter \<open>XML_items\<close>: \<open>None\<close> for a document with a parser error, and
  otherwise, for each matched element in document order, the tag name and text content
  of each of its child elements.
\<close>

definition parseXML :: "env \<Rightarrow> string \<Rightarrow> error + jsval list" where
  "parseXML e txt =
     (case XML_items e txt of
        None \<Rightarrow> Inl InvalidXML
      | Some items \<Rightarrow>
          Inr (map (\<lambda>children. Obj (fold (\<lambda>(tagName, textContent) obj.
                                             set_prop obj tagName textContent)
                                          children Map.empty))
                   items))"

definition parseText :: "env \<Rightarrow> string \<Rightarrow> jsval list" where
  "parseText e txt =
     map (\<lambda>(index, line). Obj [''id'' \<mapsto> Num (of_nat (index + 1)),
                                ''content'' \<mapsto> Str (trim line),
                                ''timestamp'' \<mapsto> Str (toISOString e (int (now e)))])
         (enumerate 0 (nonblank_lines txt))"

text \<open>\<^verbatim>\<open>file.name.split('.').pop()?.toLowerCase()\<close>: the split of a string is never
  empty, so the extension is the lower-cased last piece.\<close>

definition parseFile :: "env \<Rightarrow> File \<Rightarrow> error + jsval list" where
  "parseFile e file =
     (let extension = toLowerCase (last (split CHR ''.'' (file_name file))) in
      if extension = ''json'' then parseJSON e (file_text file)
      else if extension = ''csv'' then parseCSV (file_text file)
      else if extension = ''xml'' then parseXML e (file_text file)
      else if extension = ''txt'' then Inr (parseText e (file_text file))
      else Inl (UnsupportedFormat extension))"

section \<open>Source registry\<close>

datatype source_type = Osint | Network | ThreatFeed | Custom

datatype source_status = Active | Inactive | Failed

record DataSourceConfig =
  cfg_name :: string
  cfg_type :: source_type
  cfg_url :: string
  cfg_status :: "source_status option"

datatype source_config = FromConfig DataSourceConfig | FromFile File

record DataSource =
  ds_id :: string
  ds_name :: string
  ds_type :: source_type
  ds_url :: string
  ds_status :: source_status
  ds_lastUpdated :: nat
  ds_config :: source_config

text \<open>\<^verbatim>\<open>Partial<DataSource>\<close>: each field is present or absent.\<close>

record SourceUpdates =
  upd_id :: "string option"
  upd_name :: "string option"
  upd_type :: "source_type option"
  upd_url :: "string option"
  upd_status :: "source_status option"
  upd_lastUpdated :: "nat option"
  upd_config :: "source_config option"

datatype registry_event =
    Initialized
  | SourceAdded DataSource
  | SourceUpdated DataSource
  | SourceRemoved DataSource
  | DataProcessed string "jsval list"

text \<open>
  A JavaScript \<^verbatim>\<open>Map\<close> iterates in insertion order, so it is a list of
  key-value pairs with distinct keys: \<^verbatim>\<open>set\<close> overwrites the value of a present
  key in place and appends an absent one, \<^verbatim>\<open>delete\<close> removes the pair.
\<close>

fun Map_set :: "'k \<Rightarrow> 'v \<Rightarrow> ('k \<times> 'v) list \<Rightarrow> ('k \<times> 'v) list" where
  "Map_set k v [] = [(k, v)]"
| "Map_set k v ((k', v') # m) = (if k' = k then (k, v) # m else (k', v') # Map_set k v m)"

definition Map_get :: "'k \<Rightarrow> ('k \<times> 'v) list \<Rightarrow> 'v option" where
  "Map_get k m = map_of m k"

definition Map_delete :: "'k \<Rightarrow> ('k \<times> 'v) list \<Rightarrow> ('k \<times> 'v) list" where
  "Map_delete k m = filter (\<lambda>(k', v'). k' \<noteq> k) m"

text \<open>
  The state of a \<^verbatim>\<open>DataSourceManager\<close>. A \<^verbatim>\<open>DataSource\<close> is a mutable object
  that the map \<open>sources\<close>, the timer callbacks and \<^verbatim>\<open>updateSource\<close> share, so
  the objects live in a store, \<open>heap\<close>, and the map holds their addresses. \<open>timers\<close>
  are the callbacks scheduled by \<^verbatim>\<open>setTimeout\<close> that have not run yet, oldest
  first (all have the same delay), each the address of the source its closure holds.
  \<open>emitted\<close> is the log of notifications.
\<close>

record registry =
  heap :: "DataSource list"
  sources :: "(string \<times> nat) list"
  data :: "(string \<times> jsval list) list"
  isInitialized :: bool
  timers :: "nat list"
  emitted :: "registry_event list"

definition registry_init :: registry where
  "registry_init = \<lparr>heap = [], sources = [], data = [], isInitialized = False,
                     timers = [], emitted = []\<rparr>"

definition deref :: "registry \<Rightarrow> nat \<Rightarrow> DataSource option" where
  "deref s ref = (if ref < length (heap s) then Some (heap s ! ref) else None)"

definition initialize :: "registry \<Rightarrow> registry" where
  "initialize s =
     (if isInitialized s then s
      else s\<lparr>isInitialized := True, emitted := emitted s @ [Initialized]\<rparr>)"

text \<open>\<open>newId\<close> is the result of \<^verbatim>\<open>generateId()\<close>, nine base-36 digits of
  \<^verbatim>\<open>Math.random()\<close>: any string.\<close>

definition addSource :: "env \<Rightarrow> string \<Rightarrow> DataSourceConfig \<Rightarrow> registry \<Rightarrow> DataSource \<times> registry" where
  "addSource e newId config s =
     (let source = \<lparr>ds_id = newId, ds_name = cfg_name config, ds_type = cfg_type config,
                     ds_url = cfg_url config,
                     ds_status = (case cfg_status config of None \<Rightarrow> Inactive | Some st \<Rightarrow> st),
                     ds_lastUpdated = now e, ds_config = FromConfig config\<rparr>;
          ref = length (heap s);
          s1 = s\<lparr>heap := heap s @ [source],
                 sources := Map_set newId ref (sources s),
                 data := Map_set newId [] (data s)\<rparr>;
          s2 = (if ds_status source = Active then s1\<lparr>timers := timers s1 @ [ref]\<rparr> else s1)
      in (source, s2\<lparr>emitted := emitted s2 @ [SourceAdded source]\<rparr>))"

definition addFileSource :: "env \<Rightarrow> string \<Rightarrow> File \<Rightarrow> registry \<Rightarrow> (error + DataSource) \<times> registry" where
  "addFileSource e newId file s =
     (let source = \<lparr>ds_id = newId, ds_name = file_name file, ds_type = Custom,
                     ds_url = ''file://'' @ file_name file, ds_status = Active,
                     ds_lastUpdated = now e, ds_config = FromFile file\<rparr>;
          ref = length (heap s);
          s1 = s\<lparr>heap := heap s @ [source], sources := Map_set newId ref (sources s)\<rparr>
      in case parseFile e file of
           Inr parsed \<Rightarrow>
             (Inr source,
              s1\<lparr>data := Map_set newId parsed (data s1),
                 emitted := emitted s1 @ [SourceAdded source, DataProcessed newId parsed]\<rparr>)
         | Inl err \<Rightarrow>
             (let failed = source\<lparr>ds_status := Failed\<rparr> in
              (Inl err,
               s1\<lparr>heap := (heap s1)[ref := failed],
                  emitted := emitted s1 @ [SourceAdded failed]\<rparr>)))"

definition generateOSINTData :: "env \<Rightarrow> jsval list" where
  "generateOSINTData e =
     [Obj [''id'' \<mapsto> Str ''1'', ''source'' \<mapsto> Str ''Twitter'',
           ''content'' \<mapsto> Str ''Suspicious activity reported in sector 7'',
           ''timestamp'' \<mapsto> Str (toISOString e (int (now e) - 3600000)),
           ''sentiment'' \<mapsto> Str ''negative'', ''confidence'' \<mapsto> Num (85 / 100)],
      Obj [''id'' \<mapsto> Str ''2'', ''source'' \<mapsto> Str ''News Feed'',
           ''content'' \<mapsto> Str ''Cybersecurity incident at major corporation'',
           ''timestamp'' \<mapsto> Str (toISOString e (int (now e) - 7200000)),
           ''sentiment'' \<mapsto> Str ''negative'', ''confidence'' \<mapsto> Num (92 / 100)],
      Obj [''id'' \<mapsto> Str ''3'', ''source'' \<mapsto> Str ''Forum'',
           ''content'' \<mapsto> Str ''New vulnerability discovered in popular software'',
           ''timestamp'' \<mapsto> Str (toISOString e (int (now e) - 10800000)),
           ''sentiment'' \<mapsto> Str ''neutral'', ''confidence'' \<mapsto> Num (78 / 100)]]"

definition generateNetworkData :: "env \<Rightarrow> jsval list" where
  "generateNetworkData e =
     [Obj [''id'' \<mapsto> Str ''1'',
           ''timestamp'' \<mapsto> Str (toISOString e (int (now e) - 1800000)),
           ''sourceIP'' \<mapsto> Str ''192.168.1.100'', ''destIP'' \<mapsto> Str ''10.0.0.50'',
           ''port'' \<mapsto> Num 443, ''protocol'' \<mapsto> Str ''HTTPS'', ''bytes'' \<mapsto> Num 2048,
           ''status'' \<mapsto> Str ''allowed''],
      Obj [''id'' \<mapsto> Str ''2'',
           ''timestamp'' \<mapsto> Str (toISOString e (int (now e) - 3600000)),
           ''sourceIP'' \<mapsto> Str ''203.0.113.45'', ''destIP'' \<mapsto> Str ''192.168.1.10'',
           ''port'' \<mapsto> Num 22, ''protocol'' \<mapsto> Str ''SSH'', ''bytes'' \<mapsto> Num 512,
           ''status'' \<mapsto> Str ''blocked''],
      Obj [''id'' \<mapsto> Str ''3'',
           ''timestamp'' \<mapsto> Str (toISOString e (int (now e) - 5400000)),
           ''sourceIP'' \<mapsto> Str ''198.51.100.23'', ''destIP'' \<mapsto> Str ''192.168.1.25'',
           ''port'' \<mapsto> Num 80, ''protocol'' \<mapsto> Str ''HTTP'', ''bytes'' \<mapsto> Num 1024,
           ''status'' \<mapsto> Str ''allowed'']]"

definition generateThreatData :: "env \<Rightarrow> jsval list" where
  "generateThreatData e =
     [Obj [''id'' \<mapsto> Str ''1'', ''type'' \<mapsto> Str ''malware'',
           ''name'' \<mapsto> Str ''Trojan.Generic.123456'', ''severity'' \<mapsto> Str ''high'',
           ''description'' \<mapsto> Str ''Banking trojan targeting financial institutions'',
           ''iocs'' \<mapsto> Arr [Str ''hash:abc123'', Str ''domain:malicious.example.com''],
           ''timestamp'' \<mapsto> Str (toISOString e (int (now e) - 7200000))],
      Obj [''id'' \<mapsto> Str ''2'', ''type'' \<mapsto> Str ''phishing'',
           ''name'' \<mapsto> Str ''Phishing Campaign Alpha'', ''severity'' \<mapsto> Str ''medium'',
           ''description'' \<mapsto> Str ''Email phishing campaign targeting corporate users'',
           ''iocs'' \<mapsto> Arr [Str ''email:phishing@example.com'', Str ''url:fake-bank.com''],
           ''timestamp'' \<mapsto> Str (toISOString e (int (now e) - 14400000))]]"

definition generateGenericData :: "env \<Rightarrow> jsval list" where
  "generateGenericData e =
     [Obj [''id'' \<mapsto> Str ''1'', ''timestamp'' \<mapsto> Str (toISOString e (int (now e))),
           ''type'' \<mapsto> Str ''event'', ''description'' \<mapsto> Str ''Generic data entry'',
           ''value'' \<mapsto> Num (math_random e 0 * 100)]]"

text \<open>
  The timer callback. It stores the sample records under \<open>sourceId\<close> whether or not
  a source is registered under that id; only the refresh of the timestamp and the
  \<^verbatim>\<open>sourceUpdated\<close> notification are guarded by the lookup.
\<close>

definition loadSampleData :: "env \<Rightarrow> string \<Rightarrow> source_type \<Rightarrow> registry \<Rightarrow> registry" where
  "loadSampleData e sourceId ty s =
     (let sampleData = (case ty of
                          Osint \<Rightarrow> generateOSINTData e
                        | Network \<Rightarrow> generateNetworkData e
                        | ThreatFeed \<Rightarrow> generateThreatData e
                        | Custom \<Rightarrow> generateGenericData e);
          s1 = s\<lparr>data := Map_set sourceId sampleData (data s),
                 emitted := emitted s @ [DataProcessed sourceId sampleData]\<rparr>
      in case Map_get sourceId (sources s1) of
           None \<Rightarrow> s1
         | Some ref \<Rightarrow>
             (case deref s1 ref of
                None \<Rightarrow> s1
              | Some source \<Rightarrow>
                  (let source' = source\<lparr>ds_lastUpdated := now e\<rparr> in
                   s1\<lparr>heap := (heap s1)[ref := source'],
                      emitted := emitted s1 @ [SourceUpdated source']\<rparr>)))"

text \<open>The oldest pending timer runs: its closure reads the id and the type of its
  source object as they are now.\<close>

definition timerFires :: "env \<Rightarrow> registry \<Rightarrow> registry" where
  "timerFires e s =
     (case timers s of
        [] \<Rightarrow> s
      | ref # pending \<Rightarrow>
          (case deref s ref of
             None \<Rightarrow> s\<lparr>timers := pending\<rparr>
           | Some source \<Rightarrow>
               loadSampleData e (ds_id source) (ds_type source) (s\<lparr>timers := pending\<rparr>)))"

text \<open>\<^verbatim>\<open>Object.assign(source, updates, { lastUpdated: new Date() })\<close>.\<close>

definition assign :: "DataSource \<Rightarrow> SourceUpdates \<Rightarrow> nat \<Rightarrow> DataSource" where
  "assign source updates t =
     \<lparr>ds_id = (case upd_id updates of None \<Rightarrow> ds_id source | Some v \<Rightarrow> v),
      ds_name = (case upd_name updates of None \<Rightarrow> ds_name source | Some v \<Rightarrow> v),
      ds_type = (case upd_type updates of None \<Rightarrow> ds_type source | Some v \<Rightarrow> v),
      ds_url = (case upd_url updates of None \<Rightarrow> ds_url source | Some v \<Rightarrow> v),
      ds_status = (case upd_status updates of None \<Rightarrow> ds_status source | Some v \<Rightarrow> v),
      ds_lastUpdated = t,
      ds_config = (case upd_config updates of None \<Rightarrow> ds_config source | Some v \<Rightarrow> v)\<rparr>"

definition getSource :: "registry \<Rightarrow> string \<Rightarrow> DataSource option" where
  "getSource s i = (case Map_get i (sources s) of None \<Rightarrow> None | Some ref \<Rightarrow> deref s ref)"

definition updateSource :: "env \<Rightarrow> string \<Rightarrow> SourceUpdates \<Rightarrow> registry \<Rightarrow> (error + unit) \<times> registry" where
  "updateSource e i updates s =
     (case Map_get i (sources s) of
        None \<Rightarrow> (Inl (SourceNotFound i), s)
      | Some ref \<Rightarrow>
          (case deref s ref of
             None \<Rightarrow> (Inl (SourceNotFound i), s)
           | Some source \<Rightarrow>
               (let source' = assign source updates (now e) in
                (Inr (), s\<lparr>heap := (heap s)[ref := source'],
                           emitted := emitted s @ [SourceUpdated source']\<rparr>))))"

definition removeSource :: "string \<Rightarrow> registry \<Rightarrow> (error + unit) \<times> registry" where
  "removeSource i s =
     (case getSource s i of
        None \<Rightarrow> (Inl (SourceNotFound i), s)
      | Some source \<Rightarrow>
          (Inr (), s\<lparr>sources := Map_delete i (sources s),
                     data := Map_delete i (data s),
                     emitted := emitted s @ [SourceRemoved source]\<rparr>))"

definition getSources :: "registry \<Rightarrow> DataSource list" where
  "getSources s = List.map_filter (\<lambda>(k, ref). deref s ref) (sources s)"

text \<open>\<^verbatim>\<open>this.data.get(id) || []\<close>: an array is truthy, also when empty.\<close>

definition getSourceData :: "registry \<Rightarrow> string \<Rightarrow> jsval list" where
  "getSourceData s i = (case Map_get i (data s) of None \<Rightarrow> [] | Some d \<Rightarrow> d)"

definition getAllData :: "registry \<Rightarrow> jsval list" where
  "getAllData s = concat (map snd (data s))"

definition shutdown :: "registry \<Rightarrow> registry" where
  "shutdown s = s\<lparr>sources := [], data := [], isInitialized := False\<rparr>"

text \<open>
  What can happen to a registry: a call of one of its methods by a client, or the run of
  a pending timer callback. \<open>exec\<close> runs a sequence of them, each at its own host
  state.
\<close>

datatype action =
    Initialize
  | AddSource string DataSourceConfig
  | AddFileSource string File
  | UpdateSource string SourceUpdates
  | RemoveSource string
  | TimerFires
  | Shutdown

fun step :: "env \<Rightarrow> action \<Rightarrow> registry \<Rightarrow> registry" where
  "step e Initialize s = initialize s"
| "step e (AddSource newId config) s = snd (addSource e newId config s)"
| "step e (AddFileSource newId file) s = snd (addFileSource e newId file s)"
| "step e (UpdateSource i updates) s = snd (updateSource e i updates s)"
| "step e (RemoveSource i) s = snd (removeSource i s)"
| "step e TimerFires s = timerFires e s"
| "step e Shutdown s = shutdown s"

fun exec :: "(env \<times> action) list \<Rightarrow> registry \<Rightarrow> registry" where
  "exec [] s = s"
| "exec ((e, a) # rest) s = exec rest (step e a s)"

section \<open>Report compiler\<close>

record ReportConfig =
  rc_type :: string
  rc_format :: string
  rc_title :: "string option"

text \<open>A report; the three fields of its \<^verbatim>\<open>metadata\<close> object are the last three
  fields here.\<close>

record Report =
  rp_id :: string
  rp_title :: string
  rp_type :: string
  rp_format :: string
  rp_content :: string
  generatedAt :: nat
  downloadUrl :: "string option"
  analysisResultsCount :: nat
  dataSourcesCount :: nat
  threatLevel :: string

datatype report_event =
    CompilerInitialized
  | ReportGenerated Report
  | ReportError error

record compiler =
  reports :: "Report list"
  rg_isInitialized :: bool
  rg_emitted :: "report_event list"

definition compiler_init :: compiler where
  "compiler_init = \<lparr>reports = [], rg_isInitialized = False, rg_emitted = []\<rparr>"

text \<open>
  \<^verbatim>\<open>Set.prototype.add\<close>, the set being the list of its elements in insertion
  order: primitive values are compared by value, objects and arrays by reference. The
  objects of the records are pairwise distinct references, so an object or an array is
  always new.
\<close>

fun set_add :: "jsval \<Rightarrow> jsval list \<Rightarrow> jsval list" where
  "set_add (Arr xs) acc = acc @ [Arr xs]"
| "set_add (Obj m) acc = acc @ [Obj m]"
| "set_add v acc = (if v \<in> set acc then acc else acc @ [v])"

fun uniqueSources :: "jsval list \<Rightarrow> jsval list \<Rightarrow> error + jsval list" where
  "uniqueSources acc [] = Inr acc"
| "uniqueSources acc (item # items) =
     (if nullish item then Inl TypeError
      else (let acc1 = (if truthy (field item ''source'')
                        then set_add (field item ''source'') acc else acc);
                acc2 = (if truthy (field item ''sourceIP'')
                        then set_add (field item ''sourceIP'') acc1 else acc1)
            in uniqueSources acc2 items))"

definition getUniqueDataSources :: "jsval list \<Rightarrow> error + jsval list" where
  "getUniqueDataSources dat = uniqueSources [] dat"

text \<open>A \<^verbatim>\<open>Set\<close> of strings filled from a list: the first occurrences, in order.\<close>

definition uniq :: "'a list \<Rightarrow> 'a list" where
  "uniq xs = fold (\<lambda>x acc. if x \<in> set acc then acc else acc @ [x]) xs []"

text \<open>\<^verbatim>\<open>xs.join('\n')\<close>.\<close>

fun join_lines :: "string list \<Rightarrow> string" where
  "join_lines [] = []"
| "join_lines [x] = x"
| "join_lines (x # y # ys) = x @ ''\<newline>'' @ join_lines (y # ys)"

text \<open>\<^verbatim>\<open>xs.map((x, i) => `${i + 1}. ${x}`).join('\n')\<close>.\<close>

definition numbered :: "string list \<Rightarrow> string" where
  "numbered xs = join_lines (map (\<lambda>(i, x). show_nat (i + 1) @ ''. '' @ x) (enumerate 0 xs))"

text \<open>\<^verbatim>\<open>toUpperCase\<close>, which the program applies to severity names only.\<close>

definition toUpperCase :: "string \<Rightarrow> string" where
  "toUpperCase s =
     map (\<lambda>c. let n = of_char c :: nat in if 97 \<le> n \<and> n \<le> 122 then char_of (n - 32) else c) s"

fun type_str :: "finding_type \<Rightarrow> string" where
  "type_str Threat = ''threat''"
| "type_str Pattern = ''pattern''"
| "type_str Anomaly = ''anomaly''"
| "type_str Correlation = ''correlation''"

definition all_recommendations :: "AnalysisResult list \<Rightarrow> string list" where
  "all_recommendations rs = uniq (concat (map recommendations rs))"

definition generateRiskAssessment :: "AnalysisResult list \<Rightarrow> string" where
  "generateRiskAssessment rs =
     (let highRiskItems = filter (\<lambda>r. severity r = Critical \<or> severity r = High) rs in
      if length highRiskItems = 0
      then ''Current risk level is LOW. No critical threats identified.''
      else ''Current risk level is ELEVATED. '' @ show_nat (length highRiskItems)
           @ '' high-priority threats require immediate attention.'')"

definition generateExecutiveRecommendations :: "AnalysisResult list \<Rightarrow> string" where
  "generateExecutiveRecommendations rs = numbered (take 5 (all_recommendations rs))"

definition generateConclusion :: "AnalysisResult list \<Rightarrow> string" where
  "generateConclusion rs =
     ''Based on the analysis of '' @ show_nat (length rs)
     @ '' findings, the organization should maintain '' @ calculateOverallThreatLevel rs
     @ '' alert status and implement the recommended security measures.''"

definition generateExecutiveSummary :: "AnalysisResult list \<Rightarrow> jsval list \<Rightarrow> error + string" where
  "generateExecutiveSummary rs dat =
     (let level = calculateOverallThreatLevel rs;
          criticalThreats = length (filter (\<lambda>r. severity r = Critical) rs);
          highThreats = length (filter (\<lambda>r. severity r = High) rs)
      in case getUniqueDataSources dat of
           Inl err \<Rightarrow> Inl err
         | Inr srcs \<Rightarrow>
             Inr (trim (''\<newline># Executive Summary\<newline>\<newline>## Overview\<newline>''
               @ ''This intelligence report provides a comprehensive analysis of security threats and patterns identified from ''
               @ show_nat (length srcs) @ '' data sources over the analysis period.''
               @ ''\<newline>\<newline>## Key Findings\<newline>''
               @ ''- **Overall Threat Level**: '' @ toUpperCase level @ ''\<newline>''
               @ ''- **Critical Threats**: '' @ show_nat criticalThreats @ ''\<newline>''
               @ ''- **High Priority Threats**: '' @ show_nat highThreats @ ''\<newline>''
               @ ''- **Total Findings**: '' @ show_nat (length rs) @ ''\<newline>''
               @ ''\<newline>## Risk Assessment\<newline>'' @ generateRiskAssessment rs @ ''\<newline>''
               @ ''\<newline>## Recommendations\<newline>'' @ generateExecutiveRecommendations rs @ ''\<newline>''
               @ ''\<newline>## Conclusion\<newline>'' @ generateConclusion rs @ ''\<newline>    '')))"

text \<open>The strings of a list of values, in order; the first conversion that throws
  ends it.\<close>

fun toStrAll :: "env \<Rightarrow> jsval list \<Rightarrow> error + string list" where
  "toStrAll e [] = Inr []"
| "toStrAll e (v # vs) =
     (case toStr e v of
        Inl err \<Rightarrow> Inl err
      | Inr s \<Rightarrow> (case toStrAll e vs of Inl err \<Rightarrow> Inl err | Inr ss \<Rightarrow> Inr (s # ss)))"

definition generateDataSourcesSummary :: "env \<Rightarrow> jsval list \<Rightarrow> error + string" where
  "generateDataSourcesSummary e dat =
     (case getUniqueDataSources dat of
        Inl err \<Rightarrow> Inl err
      | Inr srcs \<Rightarrow>
          (case toStrAll e srcs of Inl err \<Rightarrow> Inl err | Inr names \<Rightarrow> Inr (numbered names)))"

definition generateDetailedFindings :: "env \<Rightarrow> AnalysisResult list \<Rightarrow> string" where
  "generateDetailedFindings e rs =
     join_lines (map (\<lambda>(i, r).
         ''\<newline>### Finding '' @ show_nat (i + 1) @ '': '' @ ar_title r @ ''\<newline>''
         @ ''- **Severity**: '' @ toUpperCase (severity_str (severity r)) @ ''\<newline>''
         @ ''- **Confidence**: '' @ toFixed1 e (confidence r * 100) @ ''%\<newline>''
         @ ''- **Description**: '' @ ar_description r @ ''\<newline>    '')
       (enumerate 0 (take 10 rs)))"

text \<open>The indicator that one property of an evidence item gives: none when the value
  is falsy, and a throw when it does not convert to a string.\<close>

definition indicator :: "env \<Rightarrow> string \<Rightarrow> jsval \<Rightarrow> error + string list" where
  "indicator e label v =
     (if truthy v
      then (case toStr e v of Inl err \<Rightarrow> Inl err | Inr s \<Rightarrow> Inr [label @ s])
      else Inr [])"

text \<open>The indicators of one evidence item; reading a property of a \<^verbatim>\<open>null\<close> or
  \<^verbatim>\<open>undefined\<close> item throws.\<close>

definition indicators_of :: "env \<Rightarrow> jsval \<Rightarrow> error + string list" where
  "indicators_of e ev =
     (if nullish ev then Inl TypeError
      else case indicator e ''IP: '' (field ev ''sourceIP'') of
             Inl err \<Rightarrow> Inl err
           | Inr xs \<Rightarrow>
               (case indicator e ''Hash: '' (field ev ''hash'') of
                  Inl err \<Rightarrow> Inl err
                | Inr ys \<Rightarrow>
                    (case indicator e ''Domain: '' (field ev ''domain'') of
                       Inl err \<Rightarrow> Inl err
                     | Inr zs \<Rightarrow> Inr (xs @ ys @ zs))))"

fun collect_indicators :: "env \<Rightarrow> jsval list \<Rightarrow> error + string list" where
  "collect_indicators e [] = Inr []"
| "collect_indicators e (ev # evs) =
     (case indicators_of e ev of
        Inl err \<Rightarrow> Inl err
      | Inr xs \<Rightarrow> (case collect_indicators e evs of Inl err \<Rightarrow> Inl err | Inr ys \<Rightarrow> Inr (xs @ ys)))"

definition generateTechnicalIndicators :: "env \<Rightarrow> AnalysisResult list \<Rightarrow> error + string" where
  "generateTechnicalIndicators e rs =
     (case collect_indicators e (concat (map evidence rs)) of
        Inl err \<Rightarrow> Inl err
      | Inr indicators \<Rightarrow> Inr (numbered (take 10 (uniq indicators))))"

definition generateMitigationStrategies :: "AnalysisResult list \<Rightarrow> string" where
  "generateMitigationStrategies rs = numbered (take 8 (all_recommendations rs))"

definition generateTechnicalAnalysis :: "env \<Rightarrow> AnalysisResult list \<Rightarrow> jsval list \<Rightarrow> error + string" where
  "generateTechnicalAnalysis e rs dat =
     (case generateDataSourcesSummary e dat of
        Inl err \<Rightarrow> Inl err
      | Inr summary \<Rightarrow>
          (case generateTechnicalIndicators e rs of
             Inl err \<Rightarrow> Inl err
           | Inr indicators \<Rightarrow>
               Inr (trim (''\<newline># Technical Analysis Report\<newline>\<newline>## Methodology\<newline>''
                 @ ''This analysis employed multiple detection techniques including:\<newline>''
                 @ ''- Threat detection algorithms\<newline>- Pattern analysis\<newline>''
                 @ ''- Anomaly detection\<newline>- Correlation analysis\<newline>''
                 @ ''\<newline>## Data Sources\<newline>'' @ summary @ ''\<newline>''
                 @ ''\<newline>## Detailed Findings\<newline>'' @ generateDetailedFindings e rs @ ''\<newline>''
                 @ ''\<newline>## Technical Indicators\<newline>'' @ indicators @ ''\<newline>''
                 @ ''\<newline>## Mitigation Strategies\<newline>'' @ generateMitigationStrategies rs
                 @ ''\<newline>    ''))))"

text \<open>A \<^verbatim>\<open>Map\<close> from names to counts, printed entry by entry in insertion order.\<close>

definition count_lines :: "string list \<Rightarrow> string" where
  "count_lines names =
     join_lines (map (\<lambda>c. ''- '' @ c @ '': '' @ show_nat (count_list names c)) (uniq names))"

definition generateThreatCategories :: "AnalysisResult list \<Rightarrow> string" where
  "generateThreatCategories threats = count_lines (map (\<lambda>t. type_str (ar_type t)) threats)"

definition generateSeverityDistribution :: "AnalysisResult list \<Rightarrow> string" where
  "generateSeverityDistribution threats = count_lines (map (\<lambda>t. severity_str (severity t)) threats)"

definition generateAttackVectors :: "AnalysisResult list \<Rightarrow> string" where
  "generateAttackVectors threats =
     trim (''\<newline>- Network-based attacks: ''
       @ show_nat (length (filter (\<lambda>t. includes_str (ar_description t) ''network'') threats))
       @ ''\<newline>- Malware infections: ''
       @ show_nat (length (filter (\<lambda>t. includes_str (ar_description t) ''malware'') threats))
       @ ''\<newline>- Suspicious activities: ''
       @ show_nat (length (filter (\<lambda>t. includes_str (ar_description t) ''suspicious'') threats))
       @ ''\<newline>    '')"

definition generateThreatAssessment :: "AnalysisResult list \<Rightarrow> jsval list \<Rightarrow> string" where
  "generateThreatAssessment rs dat =
     (let threats = filter (\<lambda>r. ar_type r = Threat) rs in
      trim (''\<newline># Threat Assessment Report\<newline>\<newline>## Threat Landscape Overview\<newline>''
        @ show_nat (length threats) @ '' threats have been identified and analyzed.\<newline>''
        @ ''\<newline>## Threat Categories\<newline>'' @ generateThreatCategories threats @ ''\<newline>''
        @ ''\<newline>## Severity Distribution\<newline>'' @ generateSeverityDistribution threats @ ''\<newline>''
        @ ''\<newline>## Attack Vectors\<newline>'' @ generateAttackVectors threats @ ''\<newline>''
        @ ''\<newline>## Threat Actor Analysis\<newline>''
        @ ''Analysis suggests multiple threat actors with varying sophistication levels. Further investigation recommended.''
        @ ''\<newline>\<newline>## Defensive Recommendations\<newline>''
        @ numbered (take 6 (all_recommendations threats)) @ ''\<newline>    ''))"

definition generateTimeline :: "env \<Rightarrow> AnalysisResult list \<Rightarrow> string" where
  "generateTimeline e incidents =
     join_lines (map (\<lambda>incident. ''- '' @ toLocaleString e (ar_timestamp incident) @ '': ''
                                  @ ar_title incident) incidents)"

definition generateIncidentReport :: "env \<Rightarrow> AnalysisResult list \<Rightarrow> jsval list \<Rightarrow> string" where
  "generateIncidentReport e rs dat =
     (let incidents = filter (\<lambda>r. severity r = Critical \<or> severity r = High) rs in
      trim (''\<newline># Incident Report\<newline>\<newline>## Incident Summary\<newline>''
        @ show_nat (length incidents) @ '' high-priority incidents requiring immediate attention.\<newline>''
        @ ''\<newline>## Timeline of Events\<newline>'' @ generateTimeline e incidents @ ''\<newline>''
        @ ''\<newline>## Impact Assessment\<newline>''
        @ show_nat (length (filter (\<lambda>i. severity i = Critical) incidents))
        @ '' critical incidents with potential for significant business impact.\<newline>''
        @ ''\<newline>## Response Actions\<newline>'' @ numbered (take 5 (all_recommendations incidents))
        @ ''\<newline>''
        @ ''\<newline>## Lessons Learned\<newline>''
        @ ''Incidents highlight the need for improved monitoring and faster response times.\<newline>''
        @ ''\<newline>## Next Steps\<newline>''
        @ trim (''\<newline>1. Implement immediate containment measures\<newline>''
                @ ''2. Conduct thorough investigation\<newline>3. Update security policies\<newline>''
                @ ''4. Enhance monitoring capabilities\<newline>5. Schedule follow-up assessment\<newline>    '')
        @ ''\<newline>    ''))"

text \<open>The content stage: the \<^verbatim>\<open>switch\<close> on \<^verbatim>\<open>config.type\<close>.\<close>

definition generateContent ::
  "env \<Rightarrow> string \<Rightarrow> AnalysisResult list \<Rightarrow> jsval list \<Rightarrow> error + string" where
  "generateContent e ty rs dat =
     (if ty = ''executive-summary'' then generateExecutiveSummary rs dat
      else if ty = ''technical-analysis'' then generateTechnicalAnalysis e rs dat
      else if ty = ''threat-assessment'' then Inr (generateThreatAssessment rs dat)
      else if ty = ''incident-report'' then Inr (generateIncidentReport e rs dat)
      else Inl (UnknownReportType ty))"

text \<open>
  The body of the \<^verbatim>\<open>try\<close> block up to the \<^verbatim>\<open>push\<close>. \<open>newId\<close> is the result
  of \<^verbatim>\<open>generateId()\<close>. Each of the three encoders hands its document to the
  host's \<^verbatim>\<open>URL.createObjectURL\<close> and returns the handle, here \<open>url\<close>; the
  documents themselves are kept by the host and are not modelled.
\<close>

definition buildReport ::
  "env \<Rightarrow> string \<Rightarrow> string \<Rightarrow> ReportConfig \<Rightarrow> AnalysisResult list \<Rightarrow> jsval list \<Rightarrow> error + Report" where
  "buildReport e newId url config analysisResults dat =
     (case getUniqueDataSources dat of
        Inl err \<Rightarrow> Inl err
      | Inr srcs \<Rightarrow>
          (let report = \<lparr>rp_id = newId,
                          rp_title = (case rc_title config of
                                        None \<Rightarrow> rc_type config @ '' Report''
                                      | Some t \<Rightarrow> if t = [] then rc_type config @ '' Report'' else t),
                          rp_type = rc_type config, rp_format = rc_format config,
                          rp_content = [], generatedAt = now e, downloadUrl = None,
                          analysisResultsCount = length analysisResults,
                          dataSourcesCount = length srcs,
                          threatLevel = calculateOverallThreatLevel analysisResults\<rparr>
           in case generateContent e (rc_type config) analysisResults dat of
                Inl err \<Rightarrow> Inl err
              | Inr content \<Rightarrow>
                  (let report1 = report\<lparr>rp_content := content\<rparr> in
                   if rc_format config = ''pdf'' then Inr (report1\<lparr>downloadUrl := Some url\<rparr>)
                   else if rc_format config = ''html'' then Inr (report1\<lparr>downloadUrl := Some url\<rparr>)
                   else if rc_format config = ''json'' then Inr (report1\<lparr>downloadUrl := Some url\<rparr>)
                   else Inl (UnknownReportFormat (rc_format config)))))"

definition generateReport ::
  "env \<Rightarrow> string \<Rightarrow> string \<Rightarrow> ReportConfig \<Rightarrow> AnalysisResult list \<Rightarrow> jsval list \<Rightarrow> compiler
     \<Rightarrow> (error + Report) \<times> compiler" where
  "generateReport e newId url config analysisResults dat st =
     (case buildReport e newId url config analysisResults dat of
        Inr report \<Rightarrow>
          (Inr report, st\<lparr>reports := reports st @ [report],
                          rg_emitted := rg_emitted st @ [ReportGenerated report]\<rparr>)
      | Inl err \<Rightarrow> (Inl err, st\<lparr>rg_emitted := rg_emitted st @ [ReportError err]\<rparr>))"

section \<open>A concrete host\<close>

text \<open>A host at which the theorems are instantiated: the clock stands at 1000, every
  random result is one half, and the parsers accept nothing.\<close>

definition host0 :: env where
  "host0 = \<lparr>now = 1000, math_random = (\<lambda>k. 1 / 2), numToStr = (\<lambda>q. []),
            toISOString = (\<lambda>t. []), toLocaleString = (\<lambda>t. []), toFixed1 = (\<lambda>q. []),
            JSON_parse = (\<lambda>t. None), XML_items = (\<lambda>t. None)\<rparr>"

section \<open>Concrete inputs\<close>

text \<open>An active feed, two uploaded files (a well-formed CSV and one with a header
  only), an update of the name and an update of the id, and two configurations, at
  which the theorems below are instantiated.\<close>

definition feed :: DataSourceConfig where
  "feed = \<lparr>cfg_name = ''feed'', cfg_type = Osint, cfg_url = ''https://example.org/feed'',
           cfg_status = Some Active\<rparr>"

definition csv_file :: File where
  "csv_file = \<lparr>file_name = ''data.csv'', file_text = ''name,value\<newline>a,1\<newline>b,2''\<rparr>"

definition header_only_file :: File where
  "header_only_file = \<lparr>file_name = ''empty.csv'', file_text = ''name,value\<newline>''\<rparr>"



definition detect_all :: AnalysisConfig where
  "detect_all = \<lparr>ac_type = ''threat-detection'', timeRange = ''24h'',
                 severityFilter = Some ''all''\<rparr>"

definition engine_init :: engine where
  "engine_init = \<lparr>results = [], eng_isInitialized = False, threatCount = 0, eng_emitted = []\<rparr>"

section \<open>Predicates on registry states and actions\<close>




text \<open>\<open>printable\<close>: the value converts to a string, which every primitive value
  does.\<close>

definition printable :: "env \<Rightarrow> jsval \<Rightarrow> bool" where
  "printable e v = (case toStr e v of Inl err \<Rightarrow> False | Inr s \<Rightarrow> True)"

text \<open>
  \<open>timely\<close>: the action is not one of the two that the registry does not guard
  against. A newly generated id is not the key of a registered source, and a timer
  callback runs while a record set is still stored under the id of its source.
  \<open>timely_exec\<close>: every action of the sequence is timely in the state where it
  happens. \<open>data_follows_sources\<close>: the keys of the record sets are keys of
  registered sources, in the order of their registration.
\<close>

definition timely :: "action \<Rightarrow> registry \<Rightarrow> bool" where
  "timely a s =
     (case a of
        AddSource newId config \<Rightarrow> newId \<notin> fst ` set (sources s)
      | AddFileSource newId fl \<Rightarrow> newId \<notin> fst ` set (sources s)
      | TimerFires \<Rightarrow>
          (case timers s of
             [] \<Rightarrow> True
           | ref # pending \<Rightarrow>
               (case deref s ref of
                  None \<Rightarrow> True
                | Some source \<Rightarrow> ds_id source \<in> fst ` set (data s)))
      | _ \<Rightarrow> True)"

fun timely_exec :: "(env \<times> action) list \<Rightarrow> registry \<Rightarrow> bool" where
  "timely_exec [] s = True"
| "timely_exec ((e, a) # rest) s = (timely a s \<and> timely_exec rest (step e a s))"

definition data_follows_sources :: "registry \<Rightarrow> bool" where
  "data_follows_sources s =
     (distinct (map fst (sources s))
      \<and> map fst (data s) = filter (\<lambda>k. k \<in> fst ` set (data s)) (map fst (sources s)))"

chapter \<open>Verified properties\<close>

section \<open>Counting findings by severity\<close>

lemma length_filter_severity:
  "length (filter (\<lambda>r. severity r = v) rs) = count_list (map severity rs) v"
  by (induction rs) auto

lemma critical_count_pos:
  "(0 < count_list (map severity rs) Critical) = (Critical \<in> severity ` set rs)"
  by (induction rs) auto

text \<open>
  Claim C1. The overall threat level follows the ordered decision table: critical when
  some finding is critical; otherwise high when more than two findings are high;
  otherwise medium when at least one finding is high or more than three are medium;
  otherwise low. In particular one critical finding among any others gives critical,
  three high and no critical give high, one high and no critical give medium, four
  medium and no high or critical give medium, and no finding gives low.
\<close>

theorem threat_level_decision_table:
  "calculateOverallThreatLevel rs =
     (if 1 \<le> count_list (map severity rs) Critical then ''critical''
      else if 2 < count_list (map severity rs) High then ''high''
      else if 1 \<le> count_list (map severity rs) High \<or> 3 < count_list (map severity rs) Medium
      then ''medium''
      else ''low'')
   \<and> (Critical \<in> severity ` set rs \<longrightarrow> calculateOverallThreatLevel rs = ''critical'')
   \<and> (count_list (map severity rs) High = 3 \<and> count_list (map severity rs) Critical = 0
        \<longrightarrow> calculateOverallThreatLevel rs = ''high'')
   \<and> (count_list (map severity rs) High = 1 \<and> count_list (map severity rs) Critical = 0
        \<longrightarrow> calculateOverallThreatLevel rs = ''medium'')
   \<and> (count_list (map severity rs) Medium = 4 \<and> count_list (map severity rs) High = 0
        \<and> count_list (map severity rs) Critical = 0
        \<longrightarrow> calculateOverallThreatLevel rs = ''medium'')
   \<and> calculateOverallThreatLevel [] = ''low''"
proof -
  have table: "calculateOverallThreatLevel rs =
     (if 1 \<le> count_list (map severity rs) Critical then ''critical''
      else if 2 < count_list (map severity rs) High then ''high''
      else if 1 \<le> count_list (map severity rs) High \<or> 3 < count_list (map severity rs) Medium
      then ''medium''
      else ''low'')"
    unfolding calculateOverallThreatLevel_def Let_def length_filter_severity
    by (auto simp: Suc_le_eq)
  have crit: "calculateOverallThreatLevel rs = ''critical''" if "Critical \<in> severity ` set rs"
  proof -
    from that have "0 < count_list (map severity rs) Critical"
      by (simp only: critical_count_pos)
    then show ?thesis by (simp add: table)
  qed
  have empty: "calculateOverallThreatLevel [] = ''low''"
    by (simp add: calculateOverallThreatLevel_def)
  from table crit empty show ?thesis by simp
qed

theorem threat_level_decision_table_witness:
  "calculateOverallThreatLevel
     [generateSampleThreats host0 ! 2, generateSampleThreats host0 ! 1, generateSampleThreats host0 ! 0]
     = ''critical''
   \<and> calculateOverallThreatLevel (replicate 3 (generateSampleThreats host0 ! 0)) = ''high''
   \<and> calculateOverallThreatLevel [generateSampleThreats host0 ! 0, generateSampleThreats host0 ! 2]
       = ''medium''
   \<and> calculateOverallThreatLevel (replicate 4 (generateSampleThreats host0 ! 2)) = ''medium''"
  using threat_level_decision_table
          [of "[generateSampleThreats host0 ! 2, generateSampleThreats host0 ! 1, generateSampleThreats host0 ! 0]"]
        threat_level_decision_table [of "replicate 3 (generateSampleThreats host0 ! 0)"]
        threat_level_decision_table [of "[generateSampleThreats host0 ! 0, generateSampleThreats host0 ! 2]"]
        threat_level_decision_table [of "replicate 4 (generateSampleThreats host0 ! 2)"]
  by (simp add: generateSampleThreats_def numeral_eq_Suc)

section \<open>Analysis engine\<close>



lemma severity_str_inj: "(severity_str a = severity_str b) = (a = b)"
  by (cases a; cases b) simp_all



text \<open>
  Claim C5. Whatever sequence of findings the strategy produced, with a configured
  severity filter other than \<^verbatim>\<open>'all'\<close> \<^verbatim>\<open>runAnalysis\<close> returns exactly the
  findings whose severity is the filter value, in their relative order (for the name of
  a severity: the findings of that severity); with the filter \<^verbatim>\<open>'all'\<close> or no filter
  (absent, or the empty string) it returns the sequence unchanged.
\<close>

theorem severity_filter:
  assumes "runStrategy e dat config = Inr rs"
  shows "(\<forall>f. severityFilter config = Some f \<and> f \<noteq> [] \<and> f \<noteq> ''all'' \<longrightarrow>
            fst (runAnalysis e dat config st)
              = Inr (filter (\<lambda>r. severity_str (severity r) = f) rs))
       \<and> (\<forall>v. severityFilter config = Some (severity_str v) \<longrightarrow>
            fst (runAnalysis e dat config st) = Inr (filter (\<lambda>r. severity r = v) rs))
       \<and> (severityFilter config = Some ''all'' \<or> severityFilter config = Some []
            \<or> severityFilter config = None \<longrightarrow>
            fst (runAnalysis e dat config st) = Inr rs)"
proof (intro conjI allI impI)
  fix f assume "severityFilter config = Some f \<and> f \<noteq> [] \<and> f \<noteq> ''all''"
  with assms show "fst (runAnalysis e dat config st)
              = Inr (filter (\<lambda>r. severity_str (severity r) = f) rs)"
    by (simp add: runAnalysis_def filterBySeverity_def Let_def)
next
  fix v assume "severityFilter config = Some (severity_str v)"
  moreover have "severity_str v \<noteq> []" "severity_str v \<noteq> ''all''"
    by (cases v; simp)+
  ultimately show "fst (runAnalysis e dat config st) = Inr (filter (\<lambda>r. severity r = v) rs)"
    using assms by (simp add: runAnalysis_def filterBySeverity_def Let_def severity_str_inj)
next
  assume "severityFilter config = Some ''all'' \<or> severityFilter config = Some []
            \<or> severityFilter config = None"
  with assms show "fst (runAnalysis e dat config st) = Inr rs"
    by (auto simp: runAnalysis_def filterBySeverity_def Let_def)
qed

theorem severity_filter_witness:
  "fst (runAnalysis host0 [] (detect_all\<lparr>severityFilter := Some ''high''\<rparr>) engine_init)
     = Inr [generateSampleThreats host0 ! 0]
   \<and> fst (runAnalysis host0 [] (detect_all\<lparr>severityFilter := None\<rparr>) engine_init)
     = Inr (generateSampleThreats host0)"
proof -
  have s: "runStrategy host0 [] (detect_all\<lparr>severityFilter := sf\<rparr>) = Inr (generateSampleThreats host0)"
    for sf
    by (simp add: runStrategy_def runThreatDetection_def detect_all_def)
  have h: "severity_str High = ''high''" by simp
  show ?thesis
    using severity_filter [OF s, of "Some ''high''" engine_init]
      severity_filter [OF s, of None engine_init]
    by (simp only: h [symmetric]) (simp add: generateSampleThreats_def)
qed

section \<open>Record normalizer: CSV\<close>

lemma buildRow_fold_absent:
  "h \<notin> set hs \<Longrightarrow>
   fold (\<lambda>(index, header) row. set_prop row header (value_at vals index)) (enumerate n hs) r h = r h"
  by (induction hs arbitrary: n r) (auto simp: set_prop_def)

lemma buildRow_fold_dom:
  "dom (fold (\<lambda>(index, header) row. set_prop row header (value_at vals index)) (enumerate n hs) r)
     = dom r \<union> (set hs - {''__proto__''})"
proof (induction hs arbitrary: n r)
  case Nil
  then show ?case by simp
next
  case (Cons h hs)
  have "dom (set_prop r h (value_at vals n)) = dom r \<union> ({h} - {''__proto__''})"
    by (simp add: set_prop_def)
  then show ?case
    by (simp add: Cons.IH Un_assoc) blast
qed

lemma buildRow_fold_last:
  "j < length hs \<Longrightarrow> hs ! j \<noteq> ''__proto__'' \<Longrightarrow> hs ! j \<notin> set (drop (Suc j) hs) \<Longrightarrow>
   fold (\<lambda>(index, header) row. set_prop row header (value_at vals index)) (enumerate n hs) r (hs ! j)
     = Some (Str (value_at vals (n + j)))"
proof (induction hs arbitrary: n r j)
  case Nil
  then show ?case by simp
next
  case (Cons h hs)
  show ?case
  proof (cases j)
    case 0
    with Cons.prems have "h \<notin> set hs" "h \<noteq> ''__proto__''" by simp_all
    then show ?thesis using 0
      by (simp add: buildRow_fold_absent) (simp add: set_prop_def)
  next
    case (Suc i)
    with Cons.prems Cons.IH [of i "Suc n"] show ?thesis by simp
  qed
qed

text \<open>
  What \<^verbatim>\<open>parseCSV\<close> does on every text. Fewer than two non-blank lines fail;
  otherwise there is one row per non-blank line after the first, in order, built from
  the trimmed pieces of the header line and of that line. The own properties of a row
  are the header names other than \<^verbatim>\<open>__proto__\<close>, and such a name holds the value
  at the position of its last occurrence, or the empty string when the line is too
  short; values beyond the headers are not read.
\<close>

lemma parseCSV_insufficient:
  "length (nonblank_lines txt) < 2 \<Longrightarrow> parseCSV txt = Inl InsufficientRows"
  by (simp add: parseCSV_def)

lemma parseCSV_rows:
  assumes "2 \<le> length (nonblank_lines txt)"
  shows "parseCSV txt =
           Inr (map (\<lambda>line. Obj (buildRow (map trim (split CHR '','' (hd (nonblank_lines txt))))
                                         (map trim (split CHR '','' line))))
                    (tl (nonblank_lines txt)))"
proof (cases "nonblank_lines txt")
  case Nil
  with assms show ?thesis by simp
next
  case (Cons l ls)
  with assms have "ls \<noteq> []" by auto
  with Cons show ?thesis by (simp add: parseCSV_def Let_def)
qed

lemma buildRow_dom: "dom (buildRow hs vals) = set hs - {''__proto__''}"
  by (simp add: buildRow_def buildRow_fold_dom)

lemma buildRow_field:
  "j < length hs \<Longrightarrow> hs ! j \<noteq> ''__proto__'' \<Longrightarrow> hs ! j \<notin> set (drop (Suc j) hs) \<Longrightarrow>
   buildRow hs vals (hs ! j) = Some (Str (if j < length vals then vals ! j else []))"
  using buildRow_fold_last [of j hs vals 0 Map.empty] by (simp add: buildRow_def value_at_def)

text \<open>
  Together: for a text with at least two non-blank lines whose trimmed header names are
  distinct and none of them \<^verbatim>\<open>__proto__\<close>, there is one record per data line, in
  order, and its fields are exactly the header names, each with the trimmed value at its
  position or the empty string where the line has none.
\<close>

lemma distinct_not_later:
  assumes "distinct hs" "j < length hs"
  shows "hs ! j \<notin> set (drop (Suc j) hs)"
proof
  assume "hs ! j \<in> set (drop (Suc j) hs)"
  then obtain i where i: "i < length (drop (Suc j) hs)" "drop (Suc j) hs ! i = hs ! j"
    by (auto simp: in_set_conv_nth)
  then have "Suc j + i < length hs" "hs ! (Suc j + i) = hs ! j" by simp_all
  with assms have "Suc j + i = j" by (simp add: nth_eq_iff_index_eq)
  then show False by simp
qed

lemma parseCSV_zip:
  assumes "2 \<le> length (nonblank_lines txt)"
    and "headers = map trim (split CHR '','' (nonblank_lines txt ! 0))"
    and "distinct headers" "''__proto__'' \<notin> set headers"
  shows "\<exists>rows. parseCSV txt = Inr rows
           \<and> length rows = length (nonblank_lines txt) - 1
           \<and> (\<forall>i<length rows. \<exists>row.
                 rows ! i = Obj row \<and> dom row = set headers
                 \<and> (\<forall>j<length headers.
                       row (headers ! j)
                         = Some (Str (let vals = map trim (split CHR '','' (nonblank_lines txt ! Suc i))
                                      in if j < length vals then vals ! j else []))))"
proof -
  let ?ls = "nonblank_lines txt"
  let ?row = "\<lambda>line. buildRow headers (map trim (split CHR '','' line))"
  from assms(1) have ne: "?ls \<noteq> []" by auto
  then have hd: "hd ?ls = ?ls ! 0" by (simp add: hd_conv_nth)
  have p: "parseCSV txt = Inr (map (\<lambda>line. Obj (?row line)) (tl ?ls))"
    using parseCSV_rows [OF assms(1)] by (simp add: assms(2) hd)
  have "\<exists>row. map (\<lambda>line. Obj (?row line)) (tl ?ls) ! i = Obj row \<and> dom row = set headers
          \<and> (\<forall>j<length headers.
                 row (headers ! j)
                   = Some (Str (let vals = map trim (split CHR '','' (?ls ! Suc i))
                                in if j < length vals then vals ! j else [])))"
    if i: "i < length (tl ?ls)" for i
  proof (intro exI conjI allI impI)
    show "map (\<lambda>line. Obj (?row line)) (tl ?ls) ! i = Obj (?row (tl ?ls ! i))"
      using i by simp
    show "dom (?row (tl ?ls ! i)) = set headers"
      using assms(4) by (simp add: buildRow_dom)
    fix j assume j: "j < length headers"
    have t: "tl ?ls ! i = ?ls ! Suc i" using i by (simp add: nth_tl)
    have "headers ! j \<noteq> ''__proto__''" using assms(4) j by (metis nth_mem)
    moreover have "headers ! j \<notin> set (drop (Suc j) headers)"
      using assms(3) j by (rule distinct_not_later)
    ultimately show "?row (tl ?ls ! i) (headers ! j)
        = Some (Str (let vals = map trim (split CHR '','' (?ls ! Suc i))
                     in if j < length vals then vals ! j else []))"
      using j by (simp add: buildRow_field t Let_def)
  qed
  with p show ?thesis by simp
qed

text \<open>
  Claim C2, at the input where the code departs from it. The CSV text with the header
  line \<^verbatim>\<open>__proto__,b\<close> and the data line \<^verbatim>\<open>1,2\<close> has two non-blank lines, and
  the claim gives its one record the fields \<^verbatim>\<open>__proto__\<close> = 1 and \<^verbatim>\<open>b\<close> = 2.
  \<^verbatim>\<open>parseCSV\<close> returns a record whose only own property is \<^verbatim>\<open>b\<close>: the
  assignment to \<^verbatim>\<open>__proto__\<close> is swallowed by the inherited setter.
\<close>

theorem parseCSV_proto_header:
  "length (nonblank_lines ''__proto__,b\<newline>1,2'') = 2
   \<and> parseCSV ''__proto__,b\<newline>1,2'' = Inr [Obj [''b'' \<mapsto> Str ''2'']]
   \<and> dom (buildRow [''__proto__'', ''b''] [''1'', ''2'']) = {''b''}"
proof -
  have "dom (buildRow [''__proto__'', ''b''] [''1'', ''2'']) = {''b''}"
    by (simp add: buildRow_dom)
  then show ?thesis
    by (simp add: parseCSV_def nonblank_lines_def trim_def isWhiteSpace_def buildRow_def
        set_prop_def value_at_def Let_def)
qed

section \<open>Source registry\<close>

lemma Map_get_set_same: "Map_get k (Map_set k v m) = Some v"
  by (induction m) (auto simp: Map_get_def)

text \<open>
  Claim C3. When the normalization of the file fails, \<^verbatim>\<open>addFileSource\<close> raises
  that same failure, and the source stays registered under its id with status error;
  its record set is empty (\<^verbatim>\<open>getSourceData\<close> on the id returns the empty list) and
  the stored record sets are untouched. When the normalization succeeds, the source is
  returned and registered with status active and its record set is the parsed sequence.
  The id that \<^verbatim>\<open>generateId\<close> returned is taken to be new: no record set is stored
  under it.
\<close>

theorem addFileSource_outcome:
  assumes "Map_get newId (data s) = None"
  shows "(\<forall>err. parseFile e file = Inl err \<longrightarrow>
            fst (addFileSource e newId file s) = Inl err
            \<and> (\<exists>source. getSource (snd (addFileSource e newId file s)) newId = Some source
                  \<and> ds_id source = newId \<and> ds_status source = Failed)
            \<and> getSourceData (snd (addFileSource e newId file s)) newId = []
            \<and> data (snd (addFileSource e newId file s)) = data s)
       \<and> (\<forall>parsed. parseFile e file = Inr parsed \<longrightarrow>
            (\<exists>source. fst (addFileSource e newId file s) = Inr source
                  \<and> getSource (snd (addFileSource e newId file s)) newId = Some source
                  \<and> ds_id source = newId \<and> ds_status source = Active)
            \<and> getSourceData (snd (addFileSource e newId file s)) newId = parsed)"
  using assms
  by (auto simp: addFileSource_def Let_def getSource_def getSourceData_def deref_def
      Map_get_set_same)

lemma parseFile_header_only: "parseFile host0 header_only_file = Inl InsufficientRows"
  by (simp add: parseFile_def header_only_file_def toLowerCase_def toLowerChar_def
      parseCSV_def nonblank_lines_def trim_def isWhiteSpace_def Let_def)

lemma parseFile_csv_file:
  "parseFile host0 csv_file
     = Inr [Obj [''name'' \<mapsto> Str ''a'', ''value'' \<mapsto> Str ''1''],
            Obj [''name'' \<mapsto> Str ''b'', ''value'' \<mapsto> Str ''2'']]"
  by (simp add: parseFile_def csv_file_def toLowerCase_def toLowerChar_def
      parseCSV_def nonblank_lines_def trim_def isWhiteSpace_def buildRow_def
      set_prop_def value_at_def Let_def)

theorem addFileSource_outcome_witness:
  "fst (addFileSource host0 ''s1'' header_only_file registry_init) = Inl InsufficientRows
   \<and> getSourceData (snd (addFileSource host0 ''s1'' header_only_file registry_init)) ''s1'' = []
   \<and> map ds_status (getSources (snd (addFileSource host0 ''s1'' header_only_file registry_init)))
       = [Failed]
   \<and> getSourceData (snd (addFileSource host0 ''s1'' csv_file registry_init)) ''s1''
       = [Obj [''name'' \<mapsto> Str ''a'', ''value'' \<mapsto> Str ''1''],
          Obj [''name'' \<mapsto> Str ''b'', ''value'' \<mapsto> Str ''2'']]
   \<and> map ds_status (getSources (snd (addFileSource host0 ''s1'' csv_file registry_init)))
       = [Active]"
proof -
  have fresh: "Map_get ''s1'' (data registry_init) = None"
    by (simp add: Map_get_def registry_init_def)
  have st: "map ds_status (getSources (snd (addFileSource host0 ''s1'' header_only_file registry_init)))
              = [Failed]"
       "map ds_status (getSources (snd (addFileSource host0 ''s1'' csv_file registry_init)))
              = [Active]"
    by (simp_all add: addFileSource_def parseFile_header_only parseFile_csv_file Let_def
        getSources_def deref_def registry_init_def List.map_filter_simps)
  from addFileSource_outcome [OF fresh, of host0 header_only_file]
    addFileSource_outcome [OF fresh, of host0 csv_file] st
  show ?thesis by (simp add: parseFile_header_only parseFile_csv_file)
qed

text \<open>
  Claim C10. A call of \<^verbatim>\<open>addFileSource\<close> sends \<^verbatim>\<open>sourceAdded\<close> exactly once,
  with the source as it is registered: on success the active source, on a normalization
  failure the source in status error. \<^verbatim>\<open>dataProcessed\<close> is sent on success
  only, after \<^verbatim>\<open>sourceAdded\<close>, with the id of the source and the parsed records.
\<close>

theorem addFileSource_notifications:
  "(\<forall>parsed. parseFile e file = Inr parsed \<longrightarrow>
      (\<exists>source. ds_id source = newId \<and> ds_status source = Active
         \<and> getSource (snd (addFileSource e newId file s)) newId = Some source
         \<and> emitted (snd (addFileSource e newId file s))
             = emitted s @ [SourceAdded source, DataProcessed newId parsed]))
   \<and> (\<forall>err. parseFile e file = Inl err \<longrightarrow>
      (\<exists>source. ds_id source = newId \<and> ds_status source = Failed
         \<and> getSource (snd (addFileSource e newId file s)) newId = Some source
         \<and> emitted (snd (addFileSource e newId file s)) = emitted s @ [SourceAdded source]))"
  by (auto simp: addFileSource_def Let_def getSource_def deref_def Map_get_set_same)

theorem addFileSource_notifications_witness:
  "(\<exists>source. ds_id source = ''s1'' \<and> ds_status source = Active
      \<and> getSource (snd (addFileSource host0 ''s1'' csv_file registry_init)) ''s1'' = Some source
      \<and> emitted (snd (addFileSource host0 ''s1'' csv_file registry_init))
          = [SourceAdded source,
             DataProcessed ''s1'' [Obj [''name'' \<mapsto> Str ''a'', ''value'' \<mapsto> Str ''1''],
                                    Obj [''name'' \<mapsto> Str ''b'', ''value'' \<mapsto> Str ''2'']]])
   \<and> (\<exists>source. ds_id source = ''s1'' \<and> ds_status source = Failed
      \<and> getSource (snd (addFileSource host0 ''s1'' header_only_file registry_init)) ''s1''
          = Some source
      \<and> emitted (snd (addFileSource host0 ''s1'' header_only_file registry_init))
          = [SourceAdded source])"
proof -
  have "emitted registry_init = []" by (simp add: registry_init_def)
  with addFileSource_notifications [of host0 csv_file "''s1''" registry_init]
    addFileSource_notifications [of host0 header_only_file "''s1''" registry_init]
  show ?thesis by (simp add: parseFile_header_only parseFile_csv_file)
qed

subsection \<open>Keys and ids of registered sources\<close>

lemma keys_Map_set:
  "map fst (Map_set k v m) = (if k \<in> fst ` set m then map fst m else map fst m @ [k])"
proof (induction m)
  case Nil
  then show ?case by simp
next
  case (Cons p m)
  obtain a b where p: "p = (a, b)" by (cases p)
  show ?case
  proof (cases "a = k")
    case True
    with p show ?thesis by simp
  next
    case False
    with Cons.IH p show ?thesis by simp
  qed
qed




text \<open>The effect of each operation on the map of sources and on the store.\<close>

lemma addSource_sources:
  "sources (snd (addSource e newId config s)) = Map_set newId (length (heap s)) (sources s)"
  by (simp add: addSource_def Let_def)


lemma addFileSource_sources:
  "sources (snd (addFileSource e newId file s)) = Map_set newId (length (heap s)) (sources s)"
  by (simp add: addFileSource_def Let_def split: sum.split)


lemma updateSource_sources: "sources (snd (updateSource e i u s)) = sources s"
  by (simp add: updateSource_def Let_def split: option.split)






lemma loadSampleData_sources: "sources (loadSampleData e i ty s) = sources s"
  by (simp add: loadSampleData_def Let_def split: option.split)



lemma timerFires_sources: "sources (timerFires e s) = sources s"
  by (simp add: timerFires_def loadSampleData_sources split: list.split option.split)























subsection \<open>Record sets and registered sources\<close>

text \<open>
  As long as every action is timely, \<^verbatim>\<open>getAllData\<close> is the concatenation of the
  record sets of the registered sources in the order of their registration, and
  \<^verbatim>\<open>getSourceData\<close> returns the empty list for an id that is not registered.
\<close>

lemma keys_Map_delete: "map fst (Map_delete k m) = filter (\<lambda>k'. k' \<noteq> k) (map fst m)"
  by (induction m) (auto simp: Map_delete_def)

lemma concat_skip_empty:
  "(\<And>k. k \<notin> D \<Longrightarrow> g k = []) \<Longrightarrow>
   concat (map g ks) = concat (map g (filter (\<lambda>k. k \<in> D) ks))"
  by (induction ks) auto

lemma lookup_all_keys:
  "distinct (map fst m) \<Longrightarrow>
   map (\<lambda>k. case map_of m k of None \<Rightarrow> [] | Some d \<Rightarrow> d) (map fst m) = map snd m"
proof (induction m)
  case Nil
  then show ?case by simp
next
  case (Cons p m)
  obtain a b where p: "p = (a, b)" by (cases p)
  with Cons.prems have a: "a \<notin> fst ` set m" and d: "distinct (map fst m)" by auto
  have "map (\<lambda>k. case map_of (p # m) k of None \<Rightarrow> [] | Some d \<Rightarrow> d) (map fst m)
        = map (\<lambda>k. case map_of m k of None \<Rightarrow> [] | Some d \<Rightarrow> d) (map fst m)"
    using a p by (intro map_cong) auto
  with Cons.IH [OF d] p show ?case by simp
qed

lemma getAllData_follows:
  assumes "data_follows_sources s"
  shows "getAllData s = concat (map (getSourceData s) (map fst (sources s)))"
proof -
  let ?D = "fst ` set (data s)"
  from assms have k: "map fst (data s) = filter (\<lambda>k. k \<in> ?D) (map fst (sources s))"
    and dk: "distinct (map fst (sources s))"
    by (simp_all add: data_follows_sources_def)
  have dd: "distinct (map fst (data s))"
    by (subst k) (simp add: dk)
  have "getSourceData s k = []" if "k \<notin> ?D" for k
  proof -
    from that have "map_of (data s) k = None" by (simp add: map_of_eq_None_iff)
    then show ?thesis by (simp add: getSourceData_def Map_get_def)
  qed
  then have "concat (map (getSourceData s) (map fst (sources s)))
             = concat (map (getSourceData s) (filter (\<lambda>k. k \<in> ?D) (map fst (sources s))))"
    by (rule concat_skip_empty)
  also have "\<dots> = concat (map (getSourceData s) (map fst (data s)))"
    by (simp only: k [symmetric])
  also have "map (getSourceData s) (map fst (data s)) = map snd (data s)"
    using lookup_all_keys [OF dd] by (simp add: getSourceData_def Map_get_def)
  finally show ?thesis by (simp add: getAllData_def)
qed


lemma follows_add_both:
  assumes "distinct ks" "dk = filter (\<lambda>x. x \<in> set dk) ks" "k \<notin> set ks"
  shows "dk @ [k] = filter (\<lambda>x. x \<in> set (dk @ [k])) (ks @ [k])"
proof -
  have "filter (\<lambda>x. x \<in> set (dk @ [k])) ks = filter (\<lambda>x. x \<in> set dk) ks"
    using assms(3) by (intro filter_cong) auto
  with assms(2) show ?thesis by simp
qed

lemma follows_add_source:
  assumes "dk = filter (\<lambda>x. x \<in> set dk) ks" "k \<notin> set ks"
  shows "dk = filter (\<lambda>x. x \<in> set dk) (ks @ [k])"
proof -
  have "set dk \<subseteq> set ks" by (subst assms(1)) auto
  with assms(2) have "k \<notin> set dk" by auto
  with assms(1) show ?thesis by simp
qed

lemma follows_delete:
  assumes "dk = filter (\<lambda>x. x \<in> set dk) ks"
  shows "filter (\<lambda>x. x \<noteq> i) dk
         = filter (\<lambda>x. x \<in> set (filter (\<lambda>x. x \<noteq> i) dk)) (filter (\<lambda>x. x \<noteq> i) ks)"
proof -
  have "filter (\<lambda>x. x \<noteq> i) dk = filter (\<lambda>x. x \<noteq> i) (filter (\<lambda>x. x \<in> set dk) ks)"
    using assms by simp
  also have "\<dots> = filter (\<lambda>x. x \<in> set (filter (\<lambda>x. x \<noteq> i) dk)) (filter (\<lambda>x. x \<noteq> i) ks)"
    by (simp add: conj_commute)
  finally show ?thesis .
qed

lemma addSource_data:
  "data (snd (addSource e newId config s)) = Map_set newId [] (data s)"
  by (simp add: addSource_def Let_def)

lemma addFileSource_data:
  "data (snd (addFileSource e newId fl s))
     = (case parseFile e fl of Inl err \<Rightarrow> data s | Inr parsed \<Rightarrow> Map_set newId parsed (data s))"
  by (simp add: addFileSource_def Let_def split: sum.split)

lemma updateSource_data: "data (snd (updateSource e i u s)) = data s"
  by (simp add: updateSource_def Let_def split: option.split)

lemma removeSource_effect:
  "(sources (snd (removeSource i s)) = sources s \<and> data (snd (removeSource i s)) = data s)
   \<or> (sources (snd (removeSource i s)) = Map_delete i (sources s)
       \<and> data (snd (removeSource i s)) = Map_delete i (data s))"
  by (simp add: removeSource_def split: option.split)

lemma loadSampleData_data_keys:
  "i \<in> fst ` set (data s) \<Longrightarrow> map fst (data (loadSampleData e i ty s)) = map fst (data s)"
  by (simp add: loadSampleData_def Let_def keys_Map_set split: option.split)

lemma timerFires_data_keys:
  "timely TimerFires s \<Longrightarrow> map fst (data (timerFires e s)) = map fst (data s)"
  by (auto simp: timely_def timerFires_def loadSampleData_data_keys split: list.splits option.splits)

lemma data_follows_sourcesD:
  assumes "data_follows_sources s"
  shows "distinct (map fst (sources s))"
    and "map fst (data s) = filter (\<lambda>x. x \<in> set (map fst (data s))) (map fst (sources s))"
proof -
  from assms show "distinct (map fst (sources s))"
    unfolding data_follows_sources_def by blast
  from assms
  have e: "map fst (data s) = filter (\<lambda>k. k \<in> fst ` set (data s)) (map fst (sources s))"
    unfolding data_follows_sources_def by blast
  have h: "set (map fst (data s)) = fst ` set (data s)" by simp
  from e show "map fst (data s)
      = filter (\<lambda>x. x \<in> set (map fst (data s))) (map fst (sources s))"
    unfolding h .
qed

lemma data_follows_sourcesI:
  assumes "map fst (sources s) = ks" "map fst (data s) = dk"
    and "distinct ks" "dk = filter (\<lambda>x. x \<in> set dk) ks"
  shows "data_follows_sources s"
proof -
  have "set dk = fst ` set (data s)" using assms(2) by (metis set_map)
  with assms show ?thesis unfolding data_follows_sources_def by metis
qed

lemma data_follows_step:
  assumes "data_follows_sources s" "timely a s"
  shows "data_follows_sources (step e a s)"
proof -
  let ?ks = "map fst (sources s)" and ?dk = "map fst (data s)"
  note d = data_follows_sourcesD(1) [OF assms(1)] and f = data_follows_sourcesD(2) [OF assms(1)]
  have sub: "set ?dk \<subseteq> set ?ks" by (subst f) auto
  show ?thesis
  proof (cases a)
    case Initialize
    with assms(1) show ?thesis by (simp add: initialize_def data_follows_sources_def)
  next
    case (AddSource newId config)
    with assms(2) have n: "newId \<notin> set ?ks" by (simp add: timely_def)
    with sub have n': "newId \<notin> set ?dk" by auto
    have ks': "map fst (sources (step e a s)) = ?ks @ [newId]"
      using n AddSource by (simp add: addSource_sources keys_Map_set)
    have dk': "map fst (data (step e a s)) = ?dk @ [newId]"
      using n' AddSource by (simp add: addSource_data keys_Map_set)
    from d n have "distinct (?ks @ [newId])" by simp
    with ks' dk' show ?thesis using follows_add_both [OF d f n]
      by (rule data_follows_sourcesI)
  next
    case (AddFileSource newId fl)
    with assms(2) have n: "newId \<notin> set ?ks" by (simp add: timely_def)
    with sub have n': "newId \<notin> set ?dk" by auto
    have ks': "map fst (sources (step e a s)) = ?ks @ [newId]"
      using n AddFileSource by (simp add: addFileSource_sources keys_Map_set)
    from d n have d': "distinct (?ks @ [newId])" by simp
    show ?thesis
    proof (cases "parseFile e fl")
      case (Inl err)
      then have dk': "map fst (data (step e a s)) = ?dk"
        using AddFileSource by (simp add: addFileSource_data)
      from ks' dk' d' show ?thesis using follows_add_source [OF f n]
        by (rule data_follows_sourcesI)
    next
      case (Inr parsed)
      then have dk': "map fst (data (step e a s)) = ?dk @ [newId]"
        using n' AddFileSource by (simp add: addFileSource_data keys_Map_set)
      from ks' dk' d' show ?thesis using follows_add_both [OF d f n]
        by (rule data_follows_sourcesI)
    qed
  next
    case (UpdateSource i u)
    with assms(1) show ?thesis
      by (simp add: data_follows_sources_def updateSource_sources updateSource_data)
  next
    case (RemoveSource i)
    from removeSource_effect [of i s] show ?thesis
    proof
      assume "sources (snd (removeSource i s)) = sources s \<and> data (snd (removeSource i s)) = data s"
      with assms(1) RemoveSource show ?thesis by (simp add: data_follows_sources_def)
    next
      assume "sources (snd (removeSource i s)) = Map_delete i (sources s)
              \<and> data (snd (removeSource i s)) = Map_delete i (data s)"
      then have ks': "map fst (sources (step e a s)) = filter (\<lambda>x. x \<noteq> i) ?ks"
        and dk': "map fst (data (step e a s)) = filter (\<lambda>x. x \<noteq> i) ?dk"
        using RemoveSource by (simp_all add: keys_Map_delete)
      from d have "distinct (filter (\<lambda>x. x \<noteq> i) ?ks)" by simp
      with ks' dk' show ?thesis using follows_delete [OF f, of i]
        by (rule data_follows_sourcesI)
    qed
  next
    case TimerFires
    with assms(2) have dk': "map fst (data (step e a s)) = ?dk"
      by (simp add: timerFires_data_keys)
    have ks': "map fst (sources (step e a s)) = ?ks"
      using TimerFires by (simp add: timerFires_sources)
    from ks' dk' d f show ?thesis by (rule data_follows_sourcesI)
  next
    case Shutdown
    then show ?thesis by (simp add: shutdown_def data_follows_sources_def)
  qed
qed

lemma data_follows_exec:
  "data_follows_sources s \<Longrightarrow> timely_exec acts s \<Longrightarrow> data_follows_sources (exec acts s)"
proof (induction acts arbitrary: s)
  case Nil
  then show ?case by simp
next
  case (Cons p acts)
  obtain e a where "p = (e, a)" by (cases p)
  with Cons show ?case by (simp add: data_follows_step)
qed

lemma getAllData_timely:
  assumes "timely_exec acts registry_init"
  shows "getAllData (exec acts registry_init)
         = concat (map (getSourceData (exec acts registry_init))
                       (map fst (sources (exec acts registry_init))))"
proof -
  have "data_follows_sources registry_init"
    by (simp add: data_follows_sources_def registry_init_def)
  then have "data_follows_sources (exec acts registry_init)"
    using assms by (rule data_follows_exec)
  then show ?thesis by (rule getAllData_follows)
qed

text \<open>
  The scenario of claim C6: after one CSV file with the header line
  \<^verbatim>\<open>name,value\<close> and the rows \<^verbatim>\<open>a,1\<close> and \<^verbatim>\<open>b,2\<close> has been registered,
  \<^verbatim>\<open>getAllData\<close> returns the two records in this order.
\<close>

lemma getAllData_csv_scenario:
  "getAllData (exec [(host0, AddFileSource ''s1'' csv_file)] registry_init)
     = [Obj [''name'' \<mapsto> Str ''a'', ''value'' \<mapsto> Str ''1''],
        Obj [''name'' \<mapsto> Str ''b'', ''value'' \<mapsto> Str ''2'']]"
  by (simp add: addFileSource_def parseFile_csv_file Let_def getAllData_def registry_init_def)

text \<open>
  Claim C6, at the input where the code departs from it. An active feed is added,
  removed before its timer runs, and then the timer runs. No source is registered any
  more, so the concatenation of the records of the registered sources is empty, but
  \<^verbatim>\<open>getAllData\<close> returns the three sample records that the timer callback stored
  under the id of the removed source.
\<close>

theorem getAllData_after_removal:
  "getSources (exec [(host0, AddSource ''a'' feed), (host0, RemoveSource ''a''), (host0, TimerFires)]
                 registry_init) = []
   \<and> getAllData (exec [(host0, AddSource ''a'' feed), (host0, RemoveSource ''a''), (host0, TimerFires)]
                 registry_init) = generateOSINTData host0
   \<and> length (generateOSINTData host0) = 3"
  by (simp add: addSource_def removeSource_def timerFires_def loadSampleData_def feed_def
      registry_init_def Let_def getSource_def Map_get_def Map_delete_def deref_def
      getSources_def getAllData_def List.map_filter_simps generateOSINTData_def)

text \<open>\<^verbatim>\<open>getSourceData\<close> returns the empty list for an id under which no record set
  is stored.\<close>

lemma getSourceData_absent: "Map_get i (data s) = None \<Longrightarrow> getSourceData s i = []"
  by (simp add: getSourceData_def)

lemma getSourceData_unregistered_timely:
  assumes "timely_exec acts registry_init" "i \<notin> fst ` set (sources (exec acts registry_init))"
  shows "getSourceData (exec acts registry_init) i = []"
proof -
  have "data_follows_sources registry_init"
    by (simp add: data_follows_sources_def registry_init_def)
  then have "data_follows_sources (exec acts registry_init)"
    using assms(1) by (rule data_follows_exec)
  then have "map fst (data (exec acts registry_init))
             = filter (\<lambda>k. k \<in> fst ` set (data (exec acts registry_init)))
                 (map fst (sources (exec acts registry_init)))"
    by (simp add: data_follows_sources_def)
  then have "set (map fst (data (exec acts registry_init)))
             \<subseteq> set (map fst (sources (exec acts registry_init)))"
    by (metis filter_is_subset)
  with assms(2) have "i \<notin> fst ` set (data (exec acts registry_init))" by auto
  then have "map_of (data (exec acts registry_init)) i = None"
    by (simp add: map_of_eq_None_iff)
  then show ?thesis by (simp add: getSourceData_def Map_get_def)
qed


text \<open>
  Claim C9, at the input where the code departs from it: in the same state, the id of
  the removed source is unregistered, and \<^verbatim>\<open>getSourceData\<close> on it returns the three
  sample records, not the empty list.
\<close>

theorem getSourceData_after_removal:
  "getSource (exec [(host0, AddSource ''a'' feed), (host0, RemoveSource ''a''), (host0, TimerFires)]
                registry_init) ''a'' = None
   \<and> getSourceData (exec [(host0, AddSource ''a'' feed), (host0, RemoveSource ''a''),
                           (host0, TimerFires)] registry_init) ''a''
       = generateOSINTData host0
   \<and> generateOSINTData host0 \<noteq> []"
  by (simp add: addSource_def removeSource_def timerFires_def loadSampleData_def feed_def
      registry_init_def Let_def getSource_def Map_get_def Map_delete_def deref_def
      getSourceData_def generateOSINTData_def)

section \<open>Report compiler: failures\<close>

lemma in_set_add: "w \<in> set (set_add v acc) \<Longrightarrow> w = v \<or> w \<in> set acc"
  by (cases v) (auto split: if_splits)

lemma uniqueSources_ok:
  "\<forall>item \<in> set dat. \<not> nullish item \<Longrightarrow> \<exists>srcs. uniqueSources acc dat = Inr srcs"
  by (induction dat arbitrary: acc) (simp_all add: Let_def)

lemma uniqueSources_printable:
  assumes "\<forall>v \<in> set acc. printable e v"
    and "\<forall>item \<in> set dat. \<not> nullish item \<and> printable e (field item ''source'')
                               \<and> printable e (field item ''sourceIP'')"
  shows "\<exists>srcs. uniqueSources acc dat = Inr srcs \<and> (\<forall>v \<in> set srcs. printable e v)"
  using assms
proof (induction dat arbitrary: acc)
  case Nil
  then show ?case by simp
next
  case (Cons item items)
  let ?acc1 = "if truthy (field item ''source'') then set_add (field item ''source'') acc else acc"
  let ?acc2 = "if truthy (field item ''sourceIP'') then set_add (field item ''sourceIP'') ?acc1
               else ?acc1"
  from Cons.prems have i: "\<not> nullish item" "printable e (field item ''source'')"
    "printable e (field item ''sourceIP'')" by simp_all
  have a1: "\<forall>v \<in> set ?acc1. printable e v"
    using Cons.prems(1) i(2) by (auto dest: in_set_add)
  have a2: "\<forall>v \<in> set ?acc2. printable e v"
  proof (cases "truthy (field item ''sourceIP'')")
    case True
    show ?thesis
    proof
      fix v assume "v \<in> set ?acc2"
      with True have "v = field item ''sourceIP'' \<or> v \<in> set ?acc1"
        by (auto dest: in_set_add simp del: set_add.simps)
      with a1 i(3) show "printable e v" by blast
    qed
  next
    case False
    with a1 show ?thesis by simp
  qed
  from Cons.prems(2) have rest: "\<forall>item \<in> set items. \<not> nullish item
      \<and> printable e (field item ''source'') \<and> printable e (field item ''sourceIP'')"
    by simp
  from Cons.IH [OF a2 rest] i(1) show ?case by (simp add: Let_def)
qed

lemma toStrAll_ok: "\<forall>v \<in> set vs. printable e v \<Longrightarrow> \<exists>ss. toStrAll e vs = Inr ss"
proof (induction vs)
  case Nil
  then show ?case by simp
next
  case (Cons v vs)
  then obtain ss where "toStrAll e vs = Inr ss" by auto
  moreover from Cons.prems obtain s where "toStr e v = Inr s"
    by (auto simp: printable_def split: sum.splits)
  ultimately show ?case by simp
qed

lemma indicator_ok: "printable e v \<Longrightarrow> \<exists>xs. indicator e label v = Inr xs"
  by (auto simp: indicator_def printable_def split: sum.splits)

lemma indicators_of_ok:
  assumes "\<not> nullish ev" "printable e (field ev ''sourceIP'')" "printable e (field ev ''hash'')"
    and "printable e (field ev ''domain'')"
  shows "\<exists>xs. indicators_of e ev = Inr xs"
proof -
  obtain xs where "indicator e ''IP: '' (field ev ''sourceIP'') = Inr xs"
    using indicator_ok [OF assms(2)] by blast
  moreover obtain ys where "indicator e ''Hash: '' (field ev ''hash'') = Inr ys"
    using indicator_ok [OF assms(3)] by blast
  moreover obtain zs where "indicator e ''Domain: '' (field ev ''domain'') = Inr zs"
    using indicator_ok [OF assms(4)] by blast
  ultimately show ?thesis using assms(1) by (simp add: indicators_of_def)
qed

lemma collect_indicators_ok:
  "\<forall>ev \<in> set evs. \<not> nullish ev \<and> printable e (field ev ''sourceIP'')
                     \<and> printable e (field ev ''hash'') \<and> printable e (field ev ''domain'')
   \<Longrightarrow> \<exists>xs. collect_indicators e evs = Inr xs"
proof (induction evs)
  case Nil
  then show ?case by simp
next
  case (Cons ev evs)
  then obtain ys where "collect_indicators e evs = Inr ys" by auto
  moreover from Cons.prems obtain xs where "indicators_of e ev = Inr xs"
    using indicators_of_ok [of ev e] by auto
  ultimately show ?case by simp
qed

lemma generateContent_unknown:
  "ty \<notin> set [''executive-summary'', ''technical-analysis'', ''threat-assessment'', ''incident-report'']
   \<Longrightarrow> generateContent e ty rs dat = Inl (UnknownReportType ty)"
  by (simp add: generateContent_def)

lemma generateContent_plain:
  assumes "ty \<in> set [''executive-summary'', ''threat-assessment'', ''incident-report'']"
    and "\<forall>item \<in> set dat. \<not> nullish item"
  shows "\<exists>content. generateContent e ty rs dat = Inr content"
proof -
  obtain srcs where s: "getUniqueDataSources dat = Inr srcs"
    using uniqueSources_ok [OF assms(2)] by (auto simp: getUniqueDataSources_def)
  have "\<exists>c. generateExecutiveSummary rs dat = Inr c"
    by (simp add: generateExecutiveSummary_def s Let_def)
  then show ?thesis
    using assms(1) by (auto simp: generateContent_def)
qed

lemma generateContent_technical:
  assumes "\<forall>item \<in> set dat. \<not> nullish item \<and> printable e (field item ''source'')
                               \<and> printable e (field item ''sourceIP'')"
    and "\<forall>ev \<in> set (concat (map evidence rs)).
           \<not> nullish ev \<and> printable e (field ev ''sourceIP'')
           \<and> printable e (field ev ''hash'') \<and> printable e (field ev ''domain'')"
  shows "\<exists>content. generateContent e ''technical-analysis'' rs dat = Inr content"
proof -
  obtain srcs where s: "getUniqueDataSources dat = Inr srcs" "\<forall>v \<in> set srcs. printable e v"
    using uniqueSources_printable [of "[]" e dat] assms(1)
    by (auto simp: getUniqueDataSources_def)
  obtain names where n: "toStrAll e srcs = Inr names"
    using toStrAll_ok [OF s(2)] by blast
  obtain xs where x: "collect_indicators e (concat (map evidence rs)) = Inr xs"
    using collect_indicators_ok [OF assms(2)] by blast
  have "\<exists>c. generateTechnicalAnalysis e rs dat = Inr c"
    by (simp add: generateTechnicalAnalysis_def generateDataSourcesSummary_def
        generateTechnicalIndicators_def s(1) n x)
  then show ?thesis by (simp add: generateContent_def)
qed

lemma generateReport_failure:
  "fst (generateReport e newId url config rs dat st) = Inl err \<Longrightarrow>
   reports (snd (generateReport e newId url config rs dat st)) = reports st
   \<and> rg_emitted (snd (generateReport e newId url config rs dat st)) = rg_emitted st @ [ReportError err]"
  by (auto simp: generateReport_def split: sum.splits)

lemma unknown_format_after_content:
  assumes "getUniqueDataSources dat = Inr srcs"
    and "generateContent e (rc_type config) rs dat = Inr content"
    and "rc_format config \<notin> set [''pdf'', ''html'', ''json'']"
  shows "fst (generateReport e newId url config rs dat st)
           = Inl (UnknownReportFormat (rc_format config))"
proof -
  from assms(3) have "rc_format config \<noteq> ''pdf''" "rc_format config \<noteq> ''html''"
    "rc_format config \<noteq> ''json''" by simp_all
  with assms(1,2) show ?thesis
    by (simp add: generateReport_def buildReport_def Let_def)
qed

text \<open>
  Claim C8, as amended. Whenever \<^verbatim>\<open>generateReport\<close> fails, the error is the one
  raised to the caller and sent as \<^verbatim>\<open>reportError\<close>, and the report history is
  unchanged. When no record is \<^verbatim>\<open>null\<close> or \<^verbatim>\<open>undefined\<close>, it fails with
  UnknownReportType for every type outside the four report types, and with
  UnknownReportFormat for every format outside pdf, html and json when the type is
  executive-summary, threat-assessment or incident-report: the type is examined first.
  For the type technical-analysis, which prints the sources of the records and the
  indicators of the evidence, it fails with UnknownReportFormat for every such format
  when moreover no evidence item is \<^verbatim>\<open>null\<close> or \<^verbatim>\<open>undefined\<close> and the values
  printed (the source and sourceIP of a record; the sourceIP, hash and domain of an
  evidence item) convert to strings.
\<close>

theorem report_failures:
  "(\<forall>err. fst (generateReport e newId url config rs dat st) = Inl err \<longrightarrow>
      reports (snd (generateReport e newId url config rs dat st)) = reports st
      \<and> rg_emitted (snd (generateReport e newId url config rs dat st))
          = rg_emitted st @ [ReportError err])
   \<and> ((\<forall>item \<in> set dat. \<not> nullish item)
       \<and> rc_type config \<notin> set [''executive-summary'', ''technical-analysis'',
                                 ''threat-assessment'', ''incident-report'']
       \<longrightarrow> fst (generateReport e newId url config rs dat st)
            = Inl (UnknownReportType (rc_type config)))
   \<and> ((\<forall>item \<in> set dat. \<not> nullish item)
       \<and> rc_type config \<in> set [''executive-summary'', ''threat-assessment'', ''incident-report'']
       \<and> rc_format config \<notin> set [''pdf'', ''html'', ''json'']
       \<longrightarrow> fst (generateReport e newId url config rs dat st)
            = Inl (UnknownReportFormat (rc_format config)))
   \<and> ((\<forall>item \<in> set dat. \<not> nullish item \<and> printable e (field item ''source'')
                              \<and> printable e (field item ''sourceIP''))
       \<and> (\<forall>ev \<in> set (concat (map evidence rs)).
              \<not> nullish ev \<and> printable e (field ev ''sourceIP'')
              \<and> printable e (field ev ''hash'') \<and> printable e (field ev ''domain''))
       \<and> rc_type config = ''technical-analysis''
       \<and> rc_format config \<notin> set [''pdf'', ''html'', ''json'']
       \<longrightarrow> fst (generateReport e newId url config rs dat st)
            = Inl (UnknownReportFormat (rc_format config)))"
proof (intro conjI allI impI)
  fix err assume "fst (generateReport e newId url config rs dat st) = Inl err"
  then show "reports (snd (generateReport e newId url config rs dat st)) = reports st"
    and "rg_emitted (snd (generateReport e newId url config rs dat st))
          = rg_emitted st @ [ReportError err]"
    by (simp_all add: generateReport_failure)
next
  assume h: "(\<forall>item \<in> set dat. \<not> nullish item)
       \<and> rc_type config \<notin> set [''executive-summary'', ''technical-analysis'',
                                 ''threat-assessment'', ''incident-report'']"
  then obtain srcs where "getUniqueDataSources dat = Inr srcs"
    using uniqueSources_ok [of dat "[]"] by (auto simp: getUniqueDataSources_def)
  moreover from h
  have "generateContent e (rc_type config) rs dat = Inl (UnknownReportType (rc_type config))"
    by (intro generateContent_unknown) simp
  ultimately show "fst (generateReport e newId url config rs dat st)
            = Inl (UnknownReportType (rc_type config))"
    by (simp add: generateReport_def buildReport_def Let_def)
next
  assume h: "(\<forall>item \<in> set dat. \<not> nullish item)
       \<and> rc_type config \<in> set [''executive-summary'', ''threat-assessment'', ''incident-report'']
       \<and> rc_format config \<notin> set [''pdf'', ''html'', ''json'']"
  then obtain srcs where s: "getUniqueDataSources dat = Inr srcs"
    using uniqueSources_ok [of dat "[]"] by (auto simp: getUniqueDataSources_def)
  from h obtain content where c: "generateContent e (rc_type config) rs dat = Inr content"
    using generateContent_plain [of "rc_type config" dat e rs] by blast
  from h have "rc_format config \<notin> set [''pdf'', ''html'', ''json'']" by blast
  with s c show "fst (generateReport e newId url config rs dat st)
            = Inl (UnknownReportFormat (rc_format config))"
    by (rule unknown_format_after_content)
next
  assume h: "(\<forall>item \<in> set dat. \<not> nullish item \<and> printable e (field item ''source'')
                              \<and> printable e (field item ''sourceIP''))
       \<and> (\<forall>ev \<in> set (concat (map evidence rs)).
              \<not> nullish ev \<and> printable e (field ev ''sourceIP'')
              \<and> printable e (field ev ''hash'') \<and> printable e (field ev ''domain''))
       \<and> rc_type config = ''technical-analysis''
       \<and> rc_format config \<notin> set [''pdf'', ''html'', ''json'']"
  then have "\<forall>item \<in> set dat. \<not> nullish item" by blast
  then obtain srcs where s: "getUniqueDataSources dat = Inr srcs"
    using uniqueSources_ok [of dat "[]"] by (auto simp: getUniqueDataSources_def)
  from h obtain content where "generateContent e ''technical-analysis'' rs dat = Inr content"
    using generateContent_technical [of dat e rs] by blast
  with h have c: "generateContent e (rc_type config) rs dat = Inr content" by simp
  from h have "rc_format config \<notin> set [''pdf'', ''html'', ''json'']" by blast
  with s c show "fst (generateReport e newId url config rs dat st)
            = Inl (UnknownReportFormat (rc_format config))"
    by (rule unknown_format_after_content)
qed

theorem report_failures_witness:
  "fst (generateReport host0 ''r1'' ''blob:1''
            \<lparr>rc_type = ''summary'', rc_format = ''pdf'', rc_title = None\<rparr>
            (generateSampleThreats host0) (generateOSINTData host0) compiler_init)
       = Inl (UnknownReportType ''summary'')
   \<and> fst (generateReport host0 ''r1'' ''blob:1''
            \<lparr>rc_type = ''incident-report'', rc_format = ''docx'', rc_title = None\<rparr>
            (generateSampleThreats host0) (generateOSINTData host0) compiler_init)
       = Inl (UnknownReportFormat ''docx'')
   \<and> fst (generateReport host0 ''r1'' ''blob:1''
            \<lparr>rc_type = ''technical-analysis'', rc_format = ''docx'', rc_title = None\<rparr>
            (generateSampleThreats host0) (generateOSINTData host0) compiler_init)
       = Inl (UnknownReportFormat ''docx'')
   \<and> reports (snd (generateReport host0 ''r1'' ''blob:1''
            \<lparr>rc_type = ''technical-analysis'', rc_format = ''docx'', rc_title = None\<rparr>
            (generateSampleThreats host0) (generateOSINTData host0) compiler_init)) = []"
proof -
  have d: "\<forall>item \<in> set (generateOSINTData host0).
             \<not> nullish item \<and> printable host0 (field item ''source'')
             \<and> printable host0 (field item ''sourceIP'')"
    by (simp add: generateOSINTData_def nullish_def printable_def)
  have ev: "\<forall>ev \<in> set (concat (map evidence (generateSampleThreats host0))).
              \<not> nullish ev \<and> printable host0 (field ev ''sourceIP'')
              \<and> printable host0 (field ev ''hash'') \<and> printable host0 (field ev ''domain'')"
    by (simp add: generateSampleThreats_def nullish_def printable_def)
  from d have d': "\<forall>item \<in> set (generateOSINTData host0). \<not> nullish item" by blast
  from d d' ev
    report_failures [of host0 "''r1''" "''blob:1''"
      "\<lparr>rc_type = ''summary'', rc_format = ''pdf'', rc_title = None\<rparr>"
      "generateSampleThreats host0" "generateOSINTData host0" compiler_init]
    report_failures [of host0 "''r1''" "''blob:1''"
      "\<lparr>rc_type = ''incident-report'', rc_format = ''docx'', rc_title = None\<rparr>"
      "generateSampleThreats host0" "generateOSINTData host0" compiler_init]
    report_failures [of host0 "''r1''" "''blob:1''"
      "\<lparr>rc_type = ''technical-analysis'', rc_format = ''docx'', rc_title = None\<rparr>"
      "generateSampleThreats host0" "generateOSINTData host0" compiler_init]
  show ?thesis by (simp add: compiler_init_def)
qed

text \<open>
  Claim C8 as stated fails, at three inputs. With the one record \<^verbatim>\<open>null\<close>, a
  configuration of unknown type fails with a TypeError, not with UnknownReportType:
  the sources of the records are counted before the type is examined. A configuration
  whose format is outside pdf, html and json and whose type is unknown too fails with
  UnknownReportType, not with UnknownReportFormat. And for the type technical-analysis
  and the one record \<^verbatim>\<open>{source: {toString: 1}}\<close>, a configuration of unknown format
  fails with a TypeError, not with UnknownReportFormat: the source does not convert to
  a string.
\<close>

theorem unknown_format_counterexample:
  "''summary'' \<notin> set [''executive-summary'', ''technical-analysis'', ''threat-assessment'',
                         ''incident-report'']
   \<and> fst (generateReport host0 ''r1'' ''blob:1''
            \<lparr>rc_type = ''summary'', rc_format = ''pdf'', rc_title = None\<rparr> [] [Null] compiler_init)
       = Inl TypeError
   \<and> ''docx'' \<notin> set [''pdf'', ''html'', ''json'']
   \<and> fst (generateReport host0 ''r1'' ''blob:1''
            \<lparr>rc_type = ''summary'', rc_format = ''docx'', rc_title = None\<rparr> [] [] compiler_init)
       = Inl (UnknownReportType ''summary'')
   \<and> fst (generateReport host0 ''r1'' ''blob:1''
            \<lparr>rc_type = ''technical-analysis'', rc_format = ''docx'', rc_title = None\<rparr> []
            [Obj [''source'' \<mapsto> Obj [''toString'' \<mapsto> Num 1]]] compiler_init)
       = Inl TypeError"
  by (simp add: generateReport_def buildReport_def getUniqueDataSources_def generateContent_def
      generateTechnicalAnalysis_def generateDataSourcesSummary_def nullish_def Let_def)

end
